theory Spec2Isabelle
  imports Main "HOL-Library.Mapping" "HOL-Library.AList_Mapping"
begin

section \<open>Data model\<close>

text \<open>
  The script \<^verbatim>\<open>subset-cjk-fonts.py\<close> reads locale JSON files, collects the code points
  they use, prints statistics and writes two subsetted fonts. Python values are modelled
  as follows: a \<^verbatim>\<open>str\<close> read from a file is a list of code points (\<open>ord\<close> turns one
  into an \<open>int\<close>), the code point set is an \<open>int set\<close>, a \<^verbatim>\<open>dict\<close> whose iteration
  order is used is an association list, one that is only looked up is a \<open>mapping\<close>.
\<close>

type_synonym pychar = nat
type_synonym pystr = "pychar list"

definition ord :: "pychar \<Rightarrow> int" where
  "ord ch = int ch"

definition py_range :: "int \<Rightarrow> int \<Rightarrow> int list" where
  \<comment> \<open>\<^verbatim>\<open>range(a, b)\<close>: from \<open>a\<close> up to, not including, \<open>b\<close>\<close>
  "py_range a b = [a..b - 1]"

definition py_str :: "string \<Rightarrow> pystr" where
  \<comment> \<open>a string literal of the script as a Python \<^verbatim>\<open>str\<close>\<close>
  "py_str s = map of_char s"

datatype pyfloat = Float int int | Infinity | NegInfinity | NaN

text \<open>What \<^verbatim>\<open>json.load\<close> returns: \<^verbatim>\<open>str\<close>, \<^verbatim>\<open>dict\<close> (keys are strings, in
  document order), \<^verbatim>\<open>list\<close>, \<^verbatim>\<open>int\<close>, \<^verbatim>\<open>float\<close>, \<^verbatim>\<open>bool\<close>, \<^verbatim>\<open>None\<close>.\<close>

datatype json =
    JStr pystr
  | JObj "(pystr \<times> json) list"
  | JArr "json list"
  | JInt int
  | JFloat pyfloat
  | JBool bool
  | JNull

datatype dir = CORE_LOCALES_DIR | BOT_LOCALES_DIR | FONTS_DIR

type_synonym path = "dir \<times> string"

definition os_path_join :: "dir \<Rightarrow> string \<Rightarrow> path" where
  "os_path_join d name = (d, name)"

definition SC_INPUT :: path where
  "SC_INPUT = os_path_join FONTS_DIR ''NotoSansSC-Regular.ttf''"

definition SC_OUTPUT :: path where
  "SC_OUTPUT = os_path_join FONTS_DIR ''NotoSansSC-Subset.ttf''"

definition KR_OUTPUT :: path where
  "KR_OUTPUT = os_path_join FONTS_DIR ''NotoSansKR-Subset.ttf''"

definition NOTO_KR_URL :: string where
  "NOTO_KR_URL = ''https://github.com/google/fonts/raw/main/ofl/notosanskr/NotoSansKR%5Bwght%5D.ttf''"

definition LOCALE_LANGUAGES :: "string list" where
  "LOCALE_LANGUAGES = [''ja'', ''ko'', ''zh'', ''de'', ''fr'']"

subsection \<open>Fonts\<close>

text \<open>
  A font object of the font library, as far as the script touches it: the records of the
  \<^verbatim>\<open>name\<close> table (absent when the font has none), what \<^verbatim>\<open>getBestCmap()\<close> returns
  (\<^verbatim>\<open>None\<close> when the font has no Unicode character map) and everything else, which the
  script never looks at.
\<close>

record name_record =
  nameID :: int
  platformID :: int
  platEncID :: int
  langID :: int
  string :: pystr

record 't font =
  name_table :: "name_record list option"
  best_cmap :: "(int, string) mapping option"
  other_tables :: 't

subsection \<open>Files, console and errors\<close>

text \<open>
  A file has a size in bytes and a content. The parsers of the libraries are not part of
  the script, so a file that holds a JSON document is modelled by the document that
  \<^verbatim>\<open>json.load\<close> returns for it, and a file that holds a font by the font object that
  \<^verbatim>\<open>TTFont\<close> reads from it and \<^verbatim>\<open>save\<close> writes to it; anything else (a directory,
  bytes that do not parse) is \<open>Other\<close>. Paths are a directory of the configuration and a
  file name. The file system is the map \<open>files\<close>, the remote side of
  \<^verbatim>\<open>urlretrieve\<close> the map \<open>network\<close>. Limits of the interpreter and of the machine
  (recursion depth, memory, a disk that cannot be written) are outside the model.
\<close>

datatype 't content = JsonDoc json | Font "'t font" | Other

record 't disk_file =
  getsize :: nat
  content_of :: "'t content"

text \<open>One \<^verbatim>\<open>print\<close> call is a line: the literal pieces of the f-string and the values
  interpolated into it. \<open>KiBV n\<close> stands for \<^verbatim>\<open>{n / 1024:.1f}\<close>.\<close>

datatype piece = Lit string | PathV path | IntV int | KiBV int

type_synonym line = "piece list"

record 't world =
  files :: "path \<rightharpoonup> 't disk_file"
  network :: "string \<rightharpoonup> 't disk_file"
  stdout :: "line list"

text \<open>An effectful function takes the world and returns its result, or the exception
  it raised, together with the world it left behind.\<close>

datatype error =
    SystemExit nat
  | JSONDecodeError
  | TTLibError
  | KeyError
  | TypeError
  | FileNotFoundError
  | URLError
  | LibraryError

definition print :: "line \<Rightarrow> 't world \<Rightarrow> 't world" where
  "print l w = w\<lparr>stdout := stdout w @ [l]\<rparr>"

definition os_path_exists :: "'t world \<Rightarrow> path \<Rightarrow> bool" where
  "os_path_exists w p = (files w p \<noteq> None)"

definition json_load :: "'t world \<Rightarrow> path \<Rightarrow> error + json" where
  \<comment> \<open>\<^verbatim>\<open>with open(path) as f: json.load(f)\<close>: fails on anything that is not a JSON document\<close>
  "json_load w p =
     (case files w p of
        Some f \<Rightarrow> (case content_of f of JsonDoc doc \<Rightarrow> Inr doc | _ \<Rightarrow> Inl JSONDecodeError)
      | None \<Rightarrow> Inl FileNotFoundError)"

definition os_path_getsize :: "'t world \<Rightarrow> path \<Rightarrow> error + nat" where
  "os_path_getsize w p =
     (case files w p of Some f \<Rightarrow> Inr (getsize f) | None \<Rightarrow> Inl FileNotFoundError)"

section \<open>Character collection\<close>

fun add_strings :: "json \<Rightarrow> int set \<Rightarrow> int set" where
  "add_strings (JStr s) codepoints = fold (\<lambda>ch cps. insert (ord ch) cps) s codepoints"
| "add_strings (JObj kvs) codepoints = fold add_strings (map snd kvs) codepoints"
| "add_strings (JArr items) codepoints = fold add_strings items codepoints"
| "add_strings _ codepoints = codepoints"

text \<open>The two loops of \<^verbatim>\<open>collect_all_characters\<close> have the same body up to the
  directory and the prefix of the progress line; \<open>load_locales\<close> is that loop.\<close>

fun load_locales ::
  "string \<Rightarrow> dir \<Rightarrow> string list \<Rightarrow> int set \<Rightarrow> 't world \<Rightarrow> (error + int set) \<times> 't world" where
  "load_locales prefix d [] codepoints w = (Inr codepoints, w)"
| "load_locales prefix d (lang # langs) codepoints w =
     (let path = os_path_join d (lang @ ''.json'') in
      if os_path_exists w path then
        (case json_load w path of
           Inl e \<Rightarrow> (Inl e, w)
         | Inr doc \<Rightarrow>
             load_locales prefix d langs (add_strings doc codepoints)
               (print [Lit (prefix @ lang @ ''.json: loaded'')] w))
      else
        load_locales prefix d langs codepoints
          (print [Lit (prefix @ lang @ ''.json: not found (skipped)'')] w))"

definition collect_all_characters :: "'t world \<Rightarrow> (error + int set) \<times> 't world" where
  "collect_all_characters w =
     (let codepoints = set (py_range 0x20 0x7F) in
      case load_locales ''  Core '' CORE_LOCALES_DIR LOCALE_LANGUAGES codepoints w of
        (Inl e, w1) \<Rightarrow> (Inl e, w1)
      | (Inr codepoints1, w1) \<Rightarrow>
          load_locales ''  Bot  '' BOT_LOCALES_DIR LOCALE_LANGUAGES codepoints1 w1)"

section \<open>Statistics\<close>

definition count_in :: "int set \<Rightarrow> int \<Rightarrow> int \<Rightarrow> int" where
  \<comment> \<open>\<^verbatim>\<open>sum(1 for c in codepoints if lo <= c <= hi)\<close>\<close>
  "count_in codepoints lo hi = (\<Sum>c \<in> Set.filter (\<lambda>c. lo \<le> c \<and> c \<le> hi) codepoints. 1)"

definition len :: "int set \<Rightarrow> int" where
  "len codepoints = int (card codepoints)"

definition print_stats :: "int set \<Rightarrow> 't world \<Rightarrow> 't world" where
  "print_stats codepoints w =
     (let hangul = count_in codepoints 0xAC00 0xD7AF;
          katakana = count_in codepoints 0x30A0 0x30FF;
          hiragana = count_in codepoints 0x3040 0x309F;
          cjk = count_in codepoints 0x4E00 0x9FFF;
          ascii_count = count_in codepoints 0x20 0x7E;
          w1 = print [Lit ''\<newline>Total codepoints: '', IntV (len codepoints)] w;
          w2 = print [Lit ''  ASCII: '', IntV ascii_count] w1;
          w3 = print [Lit ''  CJK Unified: '', IntV cjk] w2;
          w4 = print [Lit ''  Hangul: '', IntV hangul] w3;
          w5 = print [Lit ''  Katakana: '', IntV katakana] w4;
          w6 = print [Lit ''  Hiragana: '', IntV hiragana] w5
      in print [Lit ''  Other: '',
                IntV (len codepoints - ascii_count - cjk - hangul - katakana - hiragana)] w6)"

section \<open>Font subsetting\<close>

text \<open>
  The font library is not part of the script; what the script calls is a parameter of
  the model. \<open>subsetter_subset\<close> is \<^verbatim>\<open>Subsetter(options).populate(unicodes=...)\<close>
  followed by \<^verbatim>\<open>subset(font)\<close>, \<open>compiled_size\<close> the number of bytes
  \<^verbatim>\<open>font.save\<close> writes. Either may fail. Only the options the script sets are kept.
\<close>

record subset_options =
  layout_features :: "string list"
  name_IDs :: "string list"
  notdef_outline :: bool

record 't fontlib =
  subsetter_subset :: "subset_options \<Rightarrow> int set \<Rightarrow> 't font \<Rightarrow> error + 't font"
  compiled_size :: "'t font \<Rightarrow> error + nat"

definition TTFont :: "'t world \<Rightarrow> path \<Rightarrow> error + 't font" where
  "TTFont w p =
     (case files w p of
        Some f \<Rightarrow> (case content_of f of Font fnt \<Rightarrow> Inr fnt | _ \<Rightarrow> Inl TTLibError)
      | None \<Rightarrow> Inl FileNotFoundError)"

definition font_save :: "'t fontlib \<Rightarrow> 't font \<Rightarrow> path \<Rightarrow> 't world \<Rightarrow> (error + unit) \<times> 't world" where
  "font_save lib fnt p w =
     (case compiled_size lib fnt of
        Inl e \<Rightarrow> (Inl e, w)
      | Inr n \<Rightarrow> (Inr (), w\<lparr>files := (files w)(p \<mapsto> \<lparr>getsize = n, content_of = Font fnt\<rparr>)\<rparr>))"

definition truthy :: "(int, pystr) mapping option \<Rightarrow> bool" where
  \<comment> \<open>\<^verbatim>\<open>if fix_names:\<close> is false for \<^verbatim>\<open>None\<close> and for the empty dict\<close>
  "truthy fix_names = (case fix_names of None \<Rightarrow> False | Some m \<Rightarrow> \<not> Mapping.is_empty m)"

definition fix_record :: "(int, pystr) mapping \<Rightarrow> name_record \<Rightarrow> name_record" where
  \<comment> \<open>the body of the loop over \<^verbatim>\<open>font['name'].names\<close>\<close>
  "fix_record fix_names record =
     (case Mapping.lookup fix_names (nameID record) of
        Some s \<Rightarrow> record\<lparr>string := s\<rparr>
      | None \<Rightarrow> record)"

definition fix_name_records :: "(int, pystr) mapping option \<Rightarrow> 't font \<Rightarrow> error + 't font" where
  "fix_name_records fix_names fnt =
     (if truthy fix_names then
        (case name_table fnt of
           None \<Rightarrow> Inl KeyError
         | Some names \<Rightarrow> Inr (fnt\<lparr>name_table := Some (map (fix_record (the fix_names)) names)\<rparr>))
      else Inr fnt)"

definition subset_font ::
  "'t fontlib \<Rightarrow> path \<Rightarrow> path \<Rightarrow> int set \<Rightarrow> (int, pystr) mapping option \<Rightarrow> 't world
     \<Rightarrow> (error + nat \<times> nat) \<times> 't world" where
  "subset_font lib input_path output_path codepoints fix_names w =
     (case TTFont w input_path of
        Inl e \<Rightarrow> (Inl e, w)
      | Inr fnt \<Rightarrow>
     let options = \<lparr>layout_features = [''*''], name_IDs = [''*''], notdef_outline = True\<rparr> in
     case subsetter_subset lib options codepoints fnt of
        Inl e \<Rightarrow> (Inl e, w)
      | Inr fnt1 \<Rightarrow>
     case fix_name_records fix_names fnt1 of
        Inl e \<Rightarrow> (Inl e, w)
      | Inr fnt2 \<Rightarrow>
     case font_save lib fnt2 output_path w of
        (Inl e, w1) \<Rightarrow> (Inl e, w1)
      | (Inr _, w1) \<Rightarrow>
     case best_cmap fnt2 of
        None \<Rightarrow> (Inl TypeError, w1)
      | Some cmap \<Rightarrow>
     let glyph_count = Mapping.size cmap in
     case os_path_getsize w1 output_path of
        Inl e \<Rightarrow> (Inl e, w1)
      | Inr n \<Rightarrow> (Inr (n, glyph_count), w1))"

section \<open>Main\<close>

definition kr_candidates :: "path list" where
  "kr_candidates =
     [os_path_join FONTS_DIR ''NotoSansKR-Variable.ttf'',
      os_path_join FONTS_DIR ''NotoSansKR[wght].ttf'',
      os_path_join FONTS_DIR ''NotoSansKR-Regular.ttf'']"

definition urlretrieve :: "string \<Rightarrow> path \<Rightarrow> 't world \<Rightarrow> (error + unit) \<times> 't world" where
  "urlretrieve url p w =
     (case network w url of
        None \<Rightarrow> (Inl URLError, w)
      | Some f \<Rightarrow> (Inr (), w\<lparr>files := (files w)(p \<mapsto> f)\<rparr>))"

text \<open>The part of \<^verbatim>\<open>main\<close> that settles \<^verbatim>\<open>kr_input\<close>: the candidate list, the
  \<^verbatim>\<open>next(...)\<close> over it and the download when it yields \<^verbatim>\<open>None\<close>.\<close>

definition main_kr_input :: "'t world \<Rightarrow> (error + path) \<times> 't world" where
  "main_kr_input w =
     (case find (os_path_exists w) kr_candidates of
        Some kr_input \<Rightarrow> (Inr kr_input, w)
      | None \<Rightarrow>
     let w1 = print [Lit ''\<newline>Noto Sans KR source not found. Downloading...''] w;
         kr_input = os_path_join FONTS_DIR ''NotoSansKR-Variable.ttf'' in
     case urlretrieve NOTO_KR_URL kr_input w1 of
        (Inl e, w2) \<Rightarrow> (Inl e, w2)
      | (Inr _, w2) \<Rightarrow>
     case os_path_getsize w2 kr_input of
        Inl e \<Rightarrow> (Inl e, w2)
      | Inr n \<Rightarrow> (Inr kr_input, print [Lit ''Downloaded: '', KiBV (int n), Lit '' KiB''] w2))"

definition kr_fix_names :: "(int, pystr) mapping" where
  "kr_fix_names = Mapping.of_alist
     [(1, py_str ''Noto Sans KR''),
      (2, py_str ''Regular''),
      (4, py_str ''Noto Sans KR Regular''),
      (6, py_str ''NotoSansKR-Regular'')]"

definition main :: "'t fontlib \<Rightarrow> 't world \<Rightarrow> (error + unit) \<times> 't world" where
  "main lib w0 =
     (let w1 = print [Lit ''Collecting characters from all locale files...''] w0 in
      case collect_all_characters w1 of
        (Inl e, w2) \<Rightarrow> (Inl e, w2)
      | (Inr codepoints, w2) \<Rightarrow>
      let w3 = print_stats codepoints w2 in
      if \<not> os_path_exists w3 SC_INPUT then
        (Inl (SystemExit 1),
         print [Lit ''Download Noto Sans SC Regular from: https://fonts.google.com/noto/specimen/Noto+Sans+SC'']
           (print [Lit ''\<newline>Error: '', PathV SC_INPUT, Lit '' not found.''] w3))
      else
      let w4 = print [Lit ''\<newline>--- Noto Sans SC ---''] w3 in
      case os_path_getsize w4 SC_INPUT of
        Inl e \<Rightarrow> (Inl e, w4)
      | Inr sc_in \<Rightarrow>
      let w5 = print [Lit ''Input: '', KiBV (int sc_in), Lit '' KiB''] w4 in
      case subset_font lib SC_INPUT SC_OUTPUT codepoints None w5 of
        (Inl e, w6) \<Rightarrow> (Inl e, w6)
      | (Inr (sc_size, sc_glyphs), w6) \<Rightarrow>
      let w7 = print [Lit ''Output: '', KiBV (int sc_size), Lit '' KiB ('',
                      IntV (int sc_glyphs), Lit '' glyphs)''] w6 in
      case main_kr_input w7 of
        (Inl e, w8) \<Rightarrow> (Inl e, w8)
      | (Inr kr_input, w8) \<Rightarrow>
      let w9 = print [Lit ''\<newline>--- Noto Sans KR ---''] w8 in
      case os_path_getsize w9 kr_input of
        Inl e \<Rightarrow> (Inl e, w9)
      | Inr kr_in \<Rightarrow>
      let w10 = print [Lit ''Input: '', KiBV (int kr_in), Lit '' KiB''] w9 in
      case subset_font lib kr_input KR_OUTPUT codepoints (Some kr_fix_names) w10 of
        (Inl e, w11) \<Rightarrow> (Inl e, w11)
      | (Inr (kr_size, kr_glyphs), w11) \<Rightarrow>
      let w12 = print [Lit ''Output: '', KiBV (int kr_size), Lit '' KiB ('',
                       IntV (int kr_glyphs), Lit '' glyphs)''] w11;
          w13 = print [Lit ''\<newline>Total CJK font overhead: '',
                       KiBV (int sc_size + int kr_size), Lit '' KiB''] w12
      in (Inr (), print [Lit ''Done! Commit the updated subset files to the repository.''] w13))"

definition exit_status :: "error + unit \<Rightarrow> nat" where
  \<comment> \<open>the status of the process: 0 on normal completion, the argument of
      \<^verbatim>\<open>sys.exit\<close>, and 1 for an uncaught exception\<close>
  "exit_status r = (case r of Inr _ \<Rightarrow> 0 | Inl (SystemExit n) \<Rightarrow> n | Inl _ \<Rightarrow> 1)"

section \<open>Notions of the specification\<close>

text \<open>The string-valued leaves of a document, at any depth, inside mappings
  (their values) or sequences; numbers, booleans and null are not among them.\<close>

fun string_leaves :: "json \<Rightarrow> pystr list" where
  "string_leaves (JStr s) = [s]"
| "string_leaves (JObj kvs) = concat (map string_leaves (map snd kvs))"
| "string_leaves (JArr items) = concat (map string_leaves items)"
| "string_leaves _ = []"

definition doc_codepoints :: "json \<Rightarrow> int set" where
  \<comment> \<open>the code points of the characters of the string leaves of a document\<close>
  "doc_codepoints doc = (\<Union>s \<in> set (string_leaves doc). ord ` set s)"

definition locale_path :: "dir \<Rightarrow> string \<Rightarrow> path" where
  \<comment> \<open>the file \<^verbatim>\<open><lang>.json\<close> of a locale directory\<close>
  "locale_path d lang = os_path_join d (lang @ ''.json'')"

definition locale_docs :: "'t world \<Rightarrow> dir \<Rightarrow> string list \<Rightarrow> json set" where
  \<comment> \<open>the documents that the files of the given languages hold in a directory\<close>
  "locale_docs w d langs = {doc. \<exists>lang \<in> set langs. json_load w (locale_path d lang) = Inr doc}"

definition loadable :: "'t world \<Rightarrow> dir \<Rightarrow> string \<Rightarrow> bool" where
  \<comment> \<open>the locale file is absent, or it exists and is a JSON document\<close>
  "loadable w d lang =
     (files w (locale_path d lang) = None \<or> (\<exists>doc. json_load w (locale_path d lang) = Inr doc))"

definition block :: "int \<Rightarrow> int \<Rightarrow> int set \<Rightarrow> int set" where
  \<comment> \<open>the code points of a set that lie in the range from \<open>lo\<close> to \<open>hi\<close>, both included\<close>
  "block lo hi codepoints = {c \<in> codepoints. lo \<le> c \<and> c \<le> hi}"

section \<open>Example inputs\<close>

text \<open>The scenario of the specification: one locale file holds
  \<^verbatim>\<open>{"greeting": <U+60A8 U+597D>}\<close>, another \<^verbatim>\<open>{"greeting": <U+C548 U+B155>}\<close>,
  no other locale file exists.\<close>

definition example_world :: "unit world" where
  "example_world =
     \<lparr>files =
        [(CORE_LOCALES_DIR, ''zh.json'') \<mapsto>
           \<lparr>getsize = 22, content_of = JsonDoc (JObj [(py_str ''greeting'', JStr [0x60A8, 0x597D])])\<rparr>,
         (BOT_LOCALES_DIR, ''ko.json'') \<mapsto>
           \<lparr>getsize = 22, content_of = JsonDoc (JObj [(py_str ''greeting'', JStr [0xC548, 0xB155])])\<rparr>],
      network = Map.empty,
      stdout = []\<rparr>"

definition example_font :: "unit font" where
  "example_font =
     \<lparr>name_table = Some
        [\<lparr>nameID = 1, platformID = 3, platEncID = 1, langID = 0x409, string = py_str ''Noto Sans KR Thin''\<rparr>,
         \<lparr>nameID = 3, platformID = 3, platEncID = 1, langID = 0x409, string = py_str ''2.004;GOOG''\<rparr>],
      best_cmap = Some (Mapping.of_alist [(0x41, ''A''), (0xC548, ''uniC548'')]),
      other_tables = ()\<rparr>"

definition example_lib :: "unit fontlib" where
  \<comment> \<open>a stand-in for the font library: it keeps the character map entries of the requested
      code points and writes 1000 bytes\<close>
  "example_lib =
     \<lparr>subsetter_subset = (\<lambda>options codepoints fnt.
        Inr (fnt\<lparr>best_cmap := map_option (Mapping.filter (\<lambda>u g. u \<in> codepoints)) (best_cmap fnt)\<rparr>)),
      compiled_size = (\<lambda>fnt. Inr 1000)\<rparr>"

definition example_font_world :: "unit world" where
  "example_font_world =
     \<lparr>files =
        [SC_INPUT \<mapsto> \<lparr>getsize = 5000, content_of = Font example_font\<rparr>,
         (FONTS_DIR, ''NotoSansKR-Regular.ttf'') \<mapsto> \<lparr>getsize = 6000, content_of = Font example_font\<rparr>],
      network = [NOTO_KR_URL \<mapsto> \<lparr>getsize = 7000, content_of = Font example_font\<rparr>],
      stdout = []\<rparr>"

definition example_download_world :: "unit world" where
  \<comment> \<open>no Korean input font is on disk\<close>
  "example_download_world =
     \<lparr>files = [SC_INPUT \<mapsto> \<lparr>getsize = 5000, content_of = Font example_font\<rparr>],
      network = [NOTO_KR_URL \<mapsto> \<lparr>getsize = 7000, content_of = Font example_font\<rparr>],
      stdout = []\<rparr>"

section \<open>Facts about the collector\<close>


lemma fold_insert_ord: "fold (\<lambda>ch cps. insert (ord ch) cps) s cps = cps \<union> ord ` set s"
  by (induction s arbitrary: cps) auto

lemma fold_add_strings:
  "(\<And>x cps. x \<in> set xs \<Longrightarrow> add_strings x cps = cps \<union> doc_codepoints x) \<Longrightarrow>
   fold add_strings xs cps = cps \<union> (\<Union>x \<in> set xs. doc_codepoints x)"
  by (induction xs arbitrary: cps) auto

lemma add_strings_eq: "add_strings doc cps = cps \<union> doc_codepoints doc"
proof (induction doc cps rule: add_strings.induct)
  case (1 s codepoints)
  then show ?case by (simp add: fold_insert_ord doc_codepoints_def)
next
  case (2 kvs codepoints)
  have "fold add_strings (map snd kvs) codepoints =
        codepoints \<union> (\<Union>x \<in> set (map snd kvs). doc_codepoints x)"
    by (rule fold_add_strings) (use 2 in auto)
  then show ?case by (auto simp: doc_codepoints_def)
next
  case (3 items codepoints)
  have "fold add_strings items codepoints =
        codepoints \<union> (\<Union>x \<in> set items. doc_codepoints x)"
    by (rule fold_add_strings) (use 3 in auto)
  then show ?case by (auto simp: doc_codepoints_def)
qed (simp_all add: doc_codepoints_def)

lemma files_print [simp]: "files (print l w) = files w"
  and network_print [simp]: "network (print l w) = network w"
  and stdout_print [simp]: "stdout (print l w) = stdout w @ [l]"
  by (simp_all add: print_def)

lemma json_load_print [simp]: "json_load (print l w) p = json_load w p"
  by (simp add: json_load_def)

lemma os_path_exists_print [simp]: "os_path_exists (print l w) p = os_path_exists w p"
  by (simp add: os_path_exists_def)

lemma os_path_getsize_print [simp]: "os_path_getsize (print l w) p = os_path_getsize w p"
  by (simp add: os_path_getsize_def)

lemma locale_docs_print [simp]: "locale_docs (print l w) d langs = locale_docs w d langs"
  by (simp add: locale_docs_def)

lemma loadable_print [simp]: "loadable (print l w) d lang = loadable w d lang"
  by (simp add: loadable_def)

lemma json_load_exists: "json_load w p = Inr doc \<Longrightarrow> os_path_exists w p"
  by (auto simp: json_load_def os_path_exists_def split: option.splits)

lemma json_load_error:
  "os_path_exists w p \<Longrightarrow> json_load w p = Inl e \<Longrightarrow> e = JSONDecodeError"
  by (auto simp: json_load_def os_path_exists_def split: option.splits content.splits)

lemma locale_docs_Cons:
  "locale_docs w d (lang # langs) =
     {doc. json_load w (locale_path d lang) = Inr doc} \<union> locale_docs w d langs"
  by (auto simp: locale_docs_def)

lemma load_locales_world:
  "files (snd (load_locales pre d langs cps w)) = files w \<and>
   network (snd (load_locales pre d langs cps w)) = network w"
  by (induction langs arbitrary: cps w) (auto simp: Let_def split: sum.splits)

lemma load_locales_fst:
  "fst (load_locales pre d langs cps w) =
     (if \<forall>lang \<in> set langs. loadable w d lang
      then Inr (cps \<union> \<Union> (doc_codepoints ` locale_docs w d langs))
      else Inl JSONDecodeError)"
proof (induction langs arbitrary: cps w)
  case Nil
  then show ?case by (simp add: locale_docs_def)
next
  case (Cons lang langs)
  let ?p = "os_path_join d (lang @ ''.json'')"
  show ?case
  proof (cases "os_path_exists w ?p")
    case False
    then have none: "files w ?p = None" by (simp add: os_path_exists_def)
    then have "loadable w d lang" by (simp add: loadable_def locale_path_def)
    moreover have "{doc. json_load w (locale_path d lang) = Inr doc} = {}"
      using none by (simp add: json_load_def locale_path_def)
    ultimately show ?thesis
      using False Cons.IH by (simp add: locale_docs_Cons)
  next
    case True
    show ?thesis
    proof (cases "json_load w ?p")
      case (Inl e)
      then have "\<not> loadable w d lang"
        using True by (simp add: loadable_def locale_path_def os_path_exists_def)
      moreover have "e = JSONDecodeError" using True Inl by (rule json_load_error)
      ultimately show ?thesis using True Inl by simp
    next
      case (Inr doc)
      then have "loadable w d lang" by (auto simp: loadable_def locale_path_def)
      moreover have "{doc. json_load w (locale_path d lang) = Inr doc} = {doc}"
        using Inr by (auto simp: locale_path_def)
      ultimately show ?thesis
        using True Inr Cons.IH by (auto simp: locale_docs_Cons add_strings_eq)
    qed
  qed
qed

lemma load_locales_stdout_prefix:
  "\<exists>ls. stdout (snd (load_locales pre d langs cps w)) = stdout w @ ls"
proof (induction langs arbitrary: cps w)
  case Nil
  then show ?case by simp
next
  case (Cons lang langs)
  show ?case
    using Cons.IH [of _ "print [Lit (pre @ lang @ ''.json: loaded'')] w"]
          Cons.IH [of _ "print [Lit (pre @ lang @ ''.json: not found (skipped)'')] w"]
    by (auto simp: Let_def split: sum.splits)
qed

lemma load_locales_notice:
  "fst (load_locales pre d langs cps w) = Inr cps' \<Longrightarrow> lang \<in> set langs \<Longrightarrow>
   files w (locale_path d lang) = None \<Longrightarrow>
   [Lit (pre @ lang @ ''.json: not found (skipped)'')] \<in> set (stdout (snd (load_locales pre d langs cps w)))"
proof (induction langs arbitrary: cps w)
  case Nil
  then show ?case by simp
next
  case (Cons l langs)
  let ?p = "os_path_join d (l @ ''.json'')"
  let ?skip = "print [Lit (pre @ l @ ''.json: not found (skipped)'')] w"
  let ?load = "print [Lit (pre @ l @ ''.json: loaded'')] w"
  show ?case
  proof (cases "os_path_exists w ?p")
    case False
    show ?thesis
    proof (cases "lang = l")
      case True
      obtain ls where "stdout (snd (load_locales pre d langs cps ?skip)) = stdout ?skip @ ls"
        using load_locales_stdout_prefix by blast
      then show ?thesis using False True by simp
    next
      case neq: False
      then show ?thesis
        using False Cons.IH [of cps ?skip] Cons.prems by simp
    qed
  next
    case True
    then have "lang \<noteq> l"
      using Cons.prems(3) by (auto simp: os_path_exists_def locale_path_def)
    then show ?thesis
      using True Cons.prems Cons.IH [of _ ?load]
      by (auto simp: Let_def split: sum.splits)
  qed
qed


lemma json_load_cong: "files w' = files w \<Longrightarrow> json_load w' p = json_load w p"
  by (simp add: json_load_def)

lemma loadable_cong: "files w' = files w \<Longrightarrow> loadable w' d lang = loadable w d lang"
  by (simp add: loadable_def json_load_def)

lemma locale_docs_cong: "files w' = files w \<Longrightarrow> locale_docs w' d langs = locale_docs w d langs"
  by (simp add: locale_docs_def json_load_def)

lemma collect_all_characters_fst:
  "fst (collect_all_characters w) =
     (if (\<forall>lang \<in> set LOCALE_LANGUAGES. loadable w CORE_LOCALES_DIR lang) \<and>
         (\<forall>lang \<in> set LOCALE_LANGUAGES. loadable w BOT_LOCALES_DIR lang)
      then Inr (set (py_range 0x20 0x7F)
                \<union> \<Union> (doc_codepoints ` locale_docs w CORE_LOCALES_DIR LOCALE_LANGUAGES)
                \<union> \<Union> (doc_codepoints ` locale_docs w BOT_LOCALES_DIR LOCALE_LANGUAGES))
      else Inl JSONDecodeError)"
proof -
  obtain r w1 where core:
    "load_locales ''  Core '' CORE_LOCALES_DIR LOCALE_LANGUAGES (set (py_range 0x20 0x7F)) w = (r, w1)"
    by (cases "load_locales ''  Core '' CORE_LOCALES_DIR LOCALE_LANGUAGES (set (py_range 0x20 0x7F)) w")
  have files1: "files w1 = files w"
    using load_locales_world [of "''  Core ''" CORE_LOCALES_DIR LOCALE_LANGUAGES "set (py_range 0x20 0x7F)" w]
    by (simp add: core)
  have r: "r = (if \<forall>lang \<in> set LOCALE_LANGUAGES. loadable w CORE_LOCALES_DIR lang
      then Inr (set (py_range 0x20 0x7F) \<union> \<Union> (doc_codepoints ` locale_docs w CORE_LOCALES_DIR LOCALE_LANGUAGES))
      else Inl JSONDecodeError)"
    using load_locales_fst [of "''  Core ''" CORE_LOCALES_DIR LOCALE_LANGUAGES "set (py_range 0x20 0x7F)" w]
    by (simp add: core)
  show ?thesis
  proof (cases r)
    case (Inl e)
    then have "fst (collect_all_characters w) = Inl e"
      by (simp add: collect_all_characters_def Let_def core)
    then show ?thesis using r Inl by (auto split: if_splits)
  next
    case (Inr cps1)
    then have "fst (collect_all_characters w) =
          fst (load_locales ''  Bot  '' BOT_LOCALES_DIR LOCALE_LANGUAGES cps1 w1)"
      by (simp add: collect_all_characters_def Let_def core)
    then show ?thesis
      using r Inr load_locales_fst [of "''  Bot  ''" BOT_LOCALES_DIR LOCALE_LANGUAGES cps1 w1]
        loadable_cong [OF files1] locale_docs_cong [OF files1]
      by (auto split: if_splits)
  qed
qed

lemma collect_all_characters_world:
  "files (snd (collect_all_characters w)) = files w \<and>
   network (snd (collect_all_characters w)) = network w"
proof -
  let ?core = "load_locales ''  Core '' CORE_LOCALES_DIR LOCALE_LANGUAGES (set (py_range 0x20 0x7F)) w"
  show ?thesis
    using load_locales_world [of "''  Core ''" CORE_LOCALES_DIR LOCALE_LANGUAGES "set (py_range 0x20 0x7F)" w]
      load_locales_world [of "''  Bot  ''" BOT_LOCALES_DIR LOCALE_LANGUAGES _ "snd ?core"]
    by (cases ?core) (auto simp: collect_all_characters_def Let_def split: sum.splits)
qed

lemma py_range_ascii: "set (py_range 0x20 0x7F) = {0x20..0x7E}"
  unfolding py_range_def set_upto by simp

section \<open>The collected set\<close>

lemma collect_all_characters_upper:
  assumes res: "fst (collect_all_characters w) = Inr codepoints" and c: "c \<in> codepoints"
  shows "(0x20 \<le> c \<and> c \<le> 0x7E) \<or>
     (\<exists>d \<in> {CORE_LOCALES_DIR, BOT_LOCALES_DIR}. \<exists>lang \<in> set LOCALE_LANGUAGES. \<exists>doc s ch.
        json_load w (os_path_join d (lang @ ''.json'')) = Inr doc \<and>
        s \<in> set (string_leaves doc) \<and> ch \<in> set s \<and> c = ord ch)"
proof -
  let ?A = "{0x20..0x7E} :: int set"
  let ?C = "\<Union> (doc_codepoints ` locale_docs w CORE_LOCALES_DIR LOCALE_LANGUAGES)"
  let ?B = "\<Union> (doc_codepoints ` locale_docs w BOT_LOCALES_DIR LOCALE_LANGUAGES)"
  have "Inr codepoints = (if (\<forall>lang \<in> set LOCALE_LANGUAGES. loadable w CORE_LOCALES_DIR lang) \<and>
         (\<forall>lang \<in> set LOCALE_LANGUAGES. loadable w BOT_LOCALES_DIR lang)
      then Inr (set (py_range 0x20 0x7F) \<union> ?C \<union> ?B)
      else (Inl JSONDecodeError :: error + int set))"
    using res collect_all_characters_fst [of w] by simp
  then have "codepoints = set (py_range 0x20 0x7F) \<union> ?C \<union> ?B"
    by (metis Inl_Inr_False sum.inject(2))
  then have "codepoints = ?A \<union> ?C \<union> ?B"
    unfolding py_range_ascii .
  then consider "c \<in> ?A" | "c \<in> ?C" | "c \<in> ?B"
    using c by blast
  then show ?thesis
  proof cases
    case 1
    then show ?thesis by simp
  next
    case 2
    then obtain doc lang s ch where "lang \<in> set LOCALE_LANGUAGES"
      "json_load w (os_path_join CORE_LOCALES_DIR (lang @ ''.json'')) = Inr doc"
      "s \<in> set (string_leaves doc)" "ch \<in> set s" "c = ord ch"
      unfolding locale_docs_def doc_codepoints_def locale_path_def by blast
    then show ?thesis by blast
  next
    case 3
    then obtain doc lang s ch where "lang \<in> set LOCALE_LANGUAGES"
      "json_load w (os_path_join BOT_LOCALES_DIR (lang @ ''.json'')) = Inr doc"
      "s \<in> set (string_leaves doc)" "ch \<in> set s" "c = ord ch"
      unfolding locale_docs_def doc_codepoints_def locale_path_def by blast
    then show ?thesis by blast
  qed
qed


text \<open>
  Claim C1. Whenever the collector returns a set, every character of every string leaf of
  every locale document it loaded (one of the two directories, one of the languages, at
  any depth inside mappings and sequences) has its code point in that set. Visiting a
  document adds exactly the code points of the characters of its string leaves and nothing
  else: a number, a boolean or null adds nothing, whether it is the document or lies
  inside mappings and sequences. So every member of the returned set is in the seed or is
  the code point of a character of a string leaf of a loaded document.
\<close>

theorem string_leaves_collected:
  "(fst (collect_all_characters w) = Inr codepoints \<and>
    d \<in> {CORE_LOCALES_DIR, BOT_LOCALES_DIR} \<and> lang \<in> set LOCALE_LANGUAGES \<and>
    json_load w (os_path_join d (lang @ ''.json'')) = Inr doc \<and>
    s \<in> set (string_leaves doc) \<and> ch \<in> set s
    \<longrightarrow> ord ch \<in> codepoints) \<and>
   add_strings (JInt n) cps = cps \<and> add_strings (JFloat x) cps = cps \<and>
   add_strings (JBool b) cps = cps \<and> add_strings JNull cps = cps \<and>
   add_strings any_doc cps = cps \<union> (\<Union>s \<in> set (string_leaves any_doc). ord ` set s) \<and>
   (fst (collect_all_characters w) = Inr codepoints \<and> c \<in> codepoints \<longrightarrow>
      (0x20 \<le> c \<and> c \<le> 0x7E) \<or>
      (\<exists>d \<in> {CORE_LOCALES_DIR, BOT_LOCALES_DIR}. \<exists>lang \<in> set LOCALE_LANGUAGES. \<exists>doc s ch.
         json_load w (os_path_join d (lang @ ''.json'')) = Inr doc \<and>
         s \<in> set (string_leaves doc) \<and> ch \<in> set s \<and> c = ord ch))"
proof -
  have lower: "ord ch \<in> codepoints"
    if res: "fst (collect_all_characters w) = Inr codepoints"
      and d: "d \<in> {CORE_LOCALES_DIR, BOT_LOCALES_DIR}"
      and lang: "lang \<in> set LOCALE_LANGUAGES"
      and doc: "json_load w (os_path_join d (lang @ ''.json'')) = Inr doc"
      and s: "s \<in> set (string_leaves doc)" and ch: "ch \<in> set s"
  proof -
    have "ord ch \<in> doc_codepoints doc"
      using s ch by (auto simp: doc_codepoints_def)
    moreover have "doc \<in> locale_docs w d LOCALE_LANGUAGES"
      using lang doc by (auto simp: locale_docs_def locale_path_def)
    ultimately have "ord ch \<in> \<Union> (doc_codepoints ` locale_docs w d LOCALE_LANGUAGES)"
      by blast
    then show ?thesis
      using res d by (auto simp: collect_all_characters_fst split: if_splits)
  qed
  have exact: "add_strings any_doc cps = cps \<union> (\<Union>s \<in> set (string_leaves any_doc). ord ` set s)"
    using add_strings_eq [of any_doc cps] by (simp only: doc_codepoints_def)
  have upper: "(0x20 \<le> c \<and> c \<le> 0x7E) \<or>
      (\<exists>d \<in> {CORE_LOCALES_DIR, BOT_LOCALES_DIR}. \<exists>lang \<in> set LOCALE_LANGUAGES. \<exists>doc s ch.
         json_load w (os_path_join d (lang @ ''.json'')) = Inr doc \<and>
         s \<in> set (string_leaves doc) \<and> ch \<in> set s \<and> c = ord ch)"
    if "fst (collect_all_characters w) = Inr codepoints \<and> c \<in> codepoints"
    using that [THEN conjunct1] that [THEN conjunct2] by (rule collect_all_characters_upper)
  have leaves: "add_strings (JInt n) cps = cps" "add_strings (JFloat x) cps = cps"
    "add_strings (JBool b) cps = cps" "add_strings JNull cps = cps"
    by simp_all
  show ?thesis
    using lower by (intro conjI impI leaves exact upper) simp_all
qed

theorem string_leaves_collected_witness:
  "fst (collect_all_characters example_world) =
     Inr (insert 0xB155 (insert 0xC548 (insert 0x597D (insert 0x60A8 (set (py_range 0x20 0x7F)))))) \<and>
   CORE_LOCALES_DIR \<in> {CORE_LOCALES_DIR, BOT_LOCALES_DIR} \<and> ''zh'' \<in> set LOCALE_LANGUAGES \<and>
   json_load example_world (os_path_join CORE_LOCALES_DIR (''zh'' @ ''.json'')) =
     Inr (JObj [(py_str ''greeting'', JStr [0x60A8, 0x597D])]) \<and>
   [0x60A8, 0x597D] \<in> set (string_leaves (JObj [(py_str ''greeting'', JStr [0x60A8, 0x597D])])) \<and>
   0x597D \<in> set [0x60A8, 0x597D :: nat] \<and>
   ord 0x597D \<in> insert 0xB155 (insert 0xC548 (insert 0x597D (insert 0x60A8 (set (py_range 0x20 0x7F))))) \<and>
   add_strings
     (JArr [JInt 12354, JObj [(py_str ''k'', JStr [0x60A8]), (py_str ''n'', JFloat NaN)],
            JNull, JBool True]) {} = {0x60A8}"
  using string_leaves_collected [where w = example_world
      and codepoints = "insert 0xB155 (insert 0xC548 (insert 0x597D (insert 0x60A8 (set (py_range 0x20 0x7F)))))"
      and d = CORE_LOCALES_DIR and lang = "''zh''"
      and doc = "JObj [(py_str ''greeting'', JStr [0x60A8, 0x597D])]"
      and s = "[0x60A8, 0x597D]" and ch = "0x597D"
      and any_doc = "JArr [JInt 12354, JObj [(py_str ''k'', JStr [0x60A8]), (py_str ''n'', JFloat NaN)],
            JNull, JBool True]" and cps = "{}"]
  by (simp add: collect_all_characters_def example_world_def LOCALE_LANGUAGES_def
      os_path_exists_def os_path_join_def json_load_def print_def ord_def Let_def)

text \<open>
  Claim C2. Whatever locale files exist and whatever they hold, a set that the collector
  returns contains every code point from 0x20 to 0x7E.
\<close>

theorem ascii_always_collected:
  "fst (collect_all_characters w) = Inr codepoints \<Longrightarrow> 0x20 \<le> c \<Longrightarrow> c \<le> 0x7E \<Longrightarrow> c \<in> codepoints"
  by (auto simp: collect_all_characters_fst py_range_ascii split: if_splits)

theorem ascii_always_collected_witness:
  "fst (collect_all_characters example_world) =
     Inr (insert 0xB155 (insert 0xC548 (insert 0x597D (insert 0x60A8 (set (py_range 0x20 0x7F)))))) \<and>
   (0x20 :: int) \<le> 0x41 \<and> (0x41 :: int) \<le> 0x7E \<and>
   0x41 \<in> insert 0xB155 (insert 0xC548 (insert 0x597D (insert 0x60A8 (set (py_range 0x20 0x7F)))))"
  using ascii_always_collected [of example_world
      "insert 0xB155 (insert 0xC548 (insert 0x597D (insert 0x60A8 (set (py_range 0x20 0x7F)))))" "0x41"]
  by (simp add: collect_all_characters_def example_world_def LOCALE_LANGUAGES_def
      os_path_exists_def os_path_join_def json_load_def print_def ord_def Let_def)

section \<open>Missing locale files\<close>


lemma collect_all_characters_notice_core:
  assumes ok: "fst (collect_all_characters w) = Inr cps"
    and lang: "lang \<in> set LOCALE_LANGUAGES"
    and none: "files w (locale_path CORE_LOCALES_DIR lang) = None"
  shows "[Lit (''  Core '' @ lang @ ''.json: not found (skipped)'')]
           \<in> set (stdout (snd (collect_all_characters w)))"
proof -
  obtain r w1 where core:
    "load_locales ''  Core '' CORE_LOCALES_DIR LOCALE_LANGUAGES (set (py_range 0x20 0x7F)) w = (r, w1)"
    by (cases "load_locales ''  Core '' CORE_LOCALES_DIR LOCALE_LANGUAGES (set (py_range 0x20 0x7F)) w")
  from ok obtain cps1 where r: "r = Inr cps1"
    by (cases r) (simp_all add: collect_all_characters_def Let_def core)
  have "[Lit (''  Core '' @ lang @ ''.json: not found (skipped)'')] \<in> set (stdout w1)"
    using load_locales_notice [of "''  Core ''" CORE_LOCALES_DIR LOCALE_LANGUAGES
        "set (py_range 0x20 0x7F)" w cps1 lang] lang none
    by (simp add: core r)
  moreover obtain ls where
    "stdout (snd (load_locales ''  Bot  '' BOT_LOCALES_DIR LOCALE_LANGUAGES cps1 w1)) = stdout w1 @ ls"
    using load_locales_stdout_prefix by blast
  ultimately show ?thesis
    by (simp add: collect_all_characters_def Let_def core r)
qed

lemma collect_all_characters_notice_bot:
  assumes ok: "fst (collect_all_characters w) = Inr cps"
    and lang: "lang \<in> set LOCALE_LANGUAGES"
    and none: "files w (locale_path BOT_LOCALES_DIR lang) = None"
  shows "[Lit (''  Bot  '' @ lang @ ''.json: not found (skipped)'')]
           \<in> set (stdout (snd (collect_all_characters w)))"
proof -
  obtain r w1 where core:
    "load_locales ''  Core '' CORE_LOCALES_DIR LOCALE_LANGUAGES (set (py_range 0x20 0x7F)) w = (r, w1)"
    by (cases "load_locales ''  Core '' CORE_LOCALES_DIR LOCALE_LANGUAGES (set (py_range 0x20 0x7F)) w")
  from ok obtain cps1 where r: "r = Inr cps1"
    by (cases r) (simp_all add: collect_all_characters_def Let_def core)
  have files1: "files w1 = files w"
    using load_locales_world [of "''  Core ''" CORE_LOCALES_DIR LOCALE_LANGUAGES "set (py_range 0x20 0x7F)" w]
    by (simp add: core)
  have "fst (load_locales ''  Bot  '' BOT_LOCALES_DIR LOCALE_LANGUAGES cps1 w1) = Inr cps"
    using ok by (simp add: collect_all_characters_def Let_def core r)
  then have "[Lit (''  Bot  '' @ lang @ ''.json: not found (skipped)'')]
      \<in> set (stdout (snd (load_locales ''  Bot  '' BOT_LOCALES_DIR LOCALE_LANGUAGES cps1 w1)))"
    using lang none files1 by (intro load_locales_notice) simp_all
  then show ?thesis
    by (simp add: collect_all_characters_def Let_def core r)
qed

text \<open>
  Claim C8. A locale file that is absent is skipped: the loop prints the notice and goes on
  with the remaining languages, the set unchanged. When every locale file that exists is a
  JSON document, the collector returns normally, the result is the seed together with the
  code points of the documents of the files that exist, and the notice of every absent file
  of either directory is on the console.
\<close>

theorem missing_locale_skipped:
  "(files w (os_path_join d (lang @ ''.json'')) = None \<longrightarrow>
      load_locales pre d (lang # langs) cps w =
      load_locales pre d langs cps (print [Lit (pre @ lang @ ''.json: not found (skipped)'')] w)) \<and>
   ((\<forall>l \<in> set LOCALE_LANGUAGES. loadable w CORE_LOCALES_DIR l \<and> loadable w BOT_LOCALES_DIR l) \<longrightarrow>
      fst (collect_all_characters w) =
        Inr (set (py_range 0x20 0x7F) \<union>
             \<Union> (doc_codepoints ` (locale_docs w CORE_LOCALES_DIR LOCALE_LANGUAGES \<union>
                                    locale_docs w BOT_LOCALES_DIR LOCALE_LANGUAGES))) \<and>
      (\<forall>l \<in> set LOCALE_LANGUAGES.
         (files w (locale_path CORE_LOCALES_DIR l) = None \<longrightarrow>
            [Lit (''  Core '' @ l @ ''.json: not found (skipped)'')]
              \<in> set (stdout (snd (collect_all_characters w)))) \<and>
         (files w (locale_path BOT_LOCALES_DIR l) = None \<longrightarrow>
            [Lit (''  Bot  '' @ l @ ''.json: not found (skipped)'')]
              \<in> set (stdout (snd (collect_all_characters w))))))"
proof (intro conjI impI)
  assume "files w (os_path_join d (lang @ ''.json'')) = None"
  then show "load_locales pre d (lang # langs) cps w =
      load_locales pre d langs cps (print [Lit (pre @ lang @ ''.json: not found (skipped)'')] w)"
    by (simp add: os_path_exists_def)
next
  assume all: "\<forall>l \<in> set LOCALE_LANGUAGES. loadable w CORE_LOCALES_DIR l \<and> loadable w BOT_LOCALES_DIR l"
  then show res: "fst (collect_all_characters w) =
        Inr (set (py_range 0x20 0x7F) \<union>
             \<Union> (doc_codepoints ` (locale_docs w CORE_LOCALES_DIR LOCALE_LANGUAGES \<union>
                                    locale_docs w BOT_LOCALES_DIR LOCALE_LANGUAGES)))"
    by (simp add: collect_all_characters_fst image_Un Un_assoc)
  show "\<forall>l \<in> set LOCALE_LANGUAGES.
         (files w (locale_path CORE_LOCALES_DIR l) = None \<longrightarrow>
            [Lit (''  Core '' @ l @ ''.json: not found (skipped)'')]
              \<in> set (stdout (snd (collect_all_characters w)))) \<and>
         (files w (locale_path BOT_LOCALES_DIR l) = None \<longrightarrow>
            [Lit (''  Bot  '' @ l @ ''.json: not found (skipped)'')]
              \<in> set (stdout (snd (collect_all_characters w))))"
    using collect_all_characters_notice_core [OF res] collect_all_characters_notice_bot [OF res]
    by blast
qed

lemma example_world_loadable:
  "\<forall>l \<in> set LOCALE_LANGUAGES.
     loadable example_world CORE_LOCALES_DIR l \<and> loadable example_world BOT_LOCALES_DIR l"
  by (simp add: LOCALE_LANGUAGES_def loadable_def locale_path_def os_path_join_def
      example_world_def json_load_def)

theorem missing_locale_skipped_witness:
  "files example_world (os_path_join CORE_LOCALES_DIR (''ja'' @ ''.json'')) = None \<and>
   load_locales ''  Core '' CORE_LOCALES_DIR [''ja''] {} example_world =
     (Inr {}, print [Lit ''  Core ja.json: not found (skipped)''] example_world) \<and>
   set LOCALE_LANGUAGES \<subseteq>
     {l. loadable example_world CORE_LOCALES_DIR l \<and> loadable example_world BOT_LOCALES_DIR l} \<and>
   fst (collect_all_characters example_world) =
     Inr (set (py_range 0x20 0x7F) \<union>
          \<Union> (doc_codepoints ` (locale_docs example_world CORE_LOCALES_DIR LOCALE_LANGUAGES \<union>
                                 locale_docs example_world BOT_LOCALES_DIR LOCALE_LANGUAGES))) \<and>
   [Lit ''  Bot  fr.json: not found (skipped)'']
     \<in> set (stdout (snd (collect_all_characters example_world)))"
  using missing_locale_skipped [of example_world CORE_LOCALES_DIR "''ja''" "''  Core ''" "[]" "{}"]
    example_world_loadable
  by (simp add: LOCALE_LANGUAGES_def locale_path_def os_path_join_def example_world_def subset_eq)

section \<open>Order and repetition\<close>


lemma locale_docs_set: "set langs = set langs' \<Longrightarrow> locale_docs w d langs = locale_docs w d langs'"
  by (simp add: locale_docs_def)

lemma load_locales_then:
  "fst (case load_locales pre d langs cps w of
          (Inl e, w1) \<Rightarrow> (Inl e, w1)
        | (Inr cps1, w1) \<Rightarrow> load_locales pre' d' langs' cps1 w1) =
     (if (\<forall>lang \<in> set langs. loadable w d lang) \<and> (\<forall>lang \<in> set langs'. loadable w d' lang)
      then Inr (cps \<union> \<Union> (doc_codepoints ` locale_docs w d langs)
                    \<union> \<Union> (doc_codepoints ` locale_docs w d' langs'))
      else Inl JSONDecodeError)"
proof -
  obtain r w1 where first: "load_locales pre d langs cps w = (r, w1)"
    by (cases "load_locales pre d langs cps w")
  have files1: "files w1 = files w"
    using load_locales_world [of pre d langs cps w] by (simp add: first)
  have r: "r = (if \<forall>lang \<in> set langs. loadable w d lang
      then Inr (cps \<union> \<Union> (doc_codepoints ` locale_docs w d langs))
      else Inl JSONDecodeError)"
    using load_locales_fst [of pre d langs cps w] by (simp add: first)
  show ?thesis
  proof (cases r)
    case (Inl e)
    then show ?thesis using r by (auto simp: first split: if_splits)
  next
    case (Inr cps1)
    then show ?thesis
      using r load_locales_fst [of pre' d' langs' cps1 w1]
        loadable_cong [OF files1] locale_docs_cong [OF files1]
      by (auto simp: first split: if_splits)
  qed
qed

lemma existing_docs_eq:
  "{doc_codepoints doc | doc d lang.
      d \<in> {CORE_LOCALES_DIR, BOT_LOCALES_DIR} \<and> lang \<in> set langs \<and>
      json_load w (os_path_join d (lang @ ''.json'')) = Inr doc} =
   doc_codepoints ` locale_docs w CORE_LOCALES_DIR langs \<union>
   doc_codepoints ` locale_docs w BOT_LOCALES_DIR langs"
  unfolding locale_docs_def locale_path_def by auto



lemma collect_all_characters_Inr:
  assumes res: "fst (collect_all_characters w) = Inr codepoints"
  shows "codepoints = {0x20..0x7E}
      \<union> \<Union> (doc_codepoints ` locale_docs w CORE_LOCALES_DIR LOCALE_LANGUAGES)
      \<union> \<Union> (doc_codepoints ` locale_docs w BOT_LOCALES_DIR LOCALE_LANGUAGES)"
proof -
  have "Inr codepoints = (if (\<forall>lang \<in> set LOCALE_LANGUAGES. loadable w CORE_LOCALES_DIR lang) \<and>
         (\<forall>lang \<in> set LOCALE_LANGUAGES. loadable w BOT_LOCALES_DIR lang)
      then Inr (set (py_range 0x20 0x7F)
                \<union> \<Union> (doc_codepoints ` locale_docs w CORE_LOCALES_DIR LOCALE_LANGUAGES)
                \<union> \<Union> (doc_codepoints ` locale_docs w BOT_LOCALES_DIR LOCALE_LANGUAGES))
      else (Inl JSONDecodeError :: error + int set))"
    using res collect_all_characters_fst [of w] by simp
  then have "codepoints = set (py_range 0x20 0x7F)
                \<union> \<Union> (doc_codepoints ` locale_docs w CORE_LOCALES_DIR LOCALE_LANGUAGES)
                \<union> \<Union> (doc_codepoints ` locale_docs w BOT_LOCALES_DIR LOCALE_LANGUAGES)"
    by (metis Inl_Inr_False sum.inject(2))
  then show ?thesis unfolding py_range_ascii .
qed




lemma load_locales_bot_core:
  assumes sets: "set langs = set LOCALE_LANGUAGES" "set langs' = set LOCALE_LANGUAGES"
  shows "fst (case load_locales pre BOT_LOCALES_DIR langs' S w of
             (Inl e, w1) \<Rightarrow> (Inl e, w1)
           | (Inr codepoints1, w1) \<Rightarrow> load_locales pre' CORE_LOCALES_DIR langs codepoints1 w1) =
     (if (\<forall>lang \<in> set LOCALE_LANGUAGES. loadable w CORE_LOCALES_DIR lang) \<and>
         (\<forall>lang \<in> set LOCALE_LANGUAGES. loadable w BOT_LOCALES_DIR lang)
      then Inr (S \<union> \<Union> (doc_codepoints ` locale_docs w CORE_LOCALES_DIR LOCALE_LANGUAGES)
         \<union> \<Union> (doc_codepoints ` locale_docs w BOT_LOCALES_DIR LOCALE_LANGUAGES)) else Inl JSONDecodeError)"
proof -
  have "fst (case load_locales pre BOT_LOCALES_DIR langs' S w of
             (Inl e, w1) \<Rightarrow> (Inl e, w1)
           | (Inr codepoints1, w1) \<Rightarrow> load_locales pre' CORE_LOCALES_DIR langs codepoints1 w1) =
     (if (\<forall>lang \<in> set LOCALE_LANGUAGES. loadable w BOT_LOCALES_DIR lang) \<and>
         (\<forall>lang \<in> set LOCALE_LANGUAGES. loadable w CORE_LOCALES_DIR lang)
      then Inr (S \<union> \<Union> (doc_codepoints ` locale_docs w BOT_LOCALES_DIR LOCALE_LANGUAGES)
         \<union> \<Union> (doc_codepoints ` locale_docs w CORE_LOCALES_DIR LOCALE_LANGUAGES)) else Inl JSONDecodeError)"
    unfolding load_locales_then
    unfolding locale_docs_set [OF sets(1)] locale_docs_set [OF sets(2)] sets
    by (rule refl)
  also have "\<dots> = (if (\<forall>lang \<in> set LOCALE_LANGUAGES. loadable w CORE_LOCALES_DIR lang) \<and>
         (\<forall>lang \<in> set LOCALE_LANGUAGES. loadable w BOT_LOCALES_DIR lang)
      then Inr (S \<union> \<Union> (doc_codepoints ` locale_docs w CORE_LOCALES_DIR LOCALE_LANGUAGES)
         \<union> \<Union> (doc_codepoints ` locale_docs w BOT_LOCALES_DIR LOCALE_LANGUAGES)) else Inl JSONDecodeError)"
    by (auto simp: Un_assoc Un_left_commute Un_commute)
  finally show ?thesis .
qed

lemma collect_all_characters_order:
  assumes sets: "set langs = set LOCALE_LANGUAGES" "set langs' = set LOCALE_LANGUAGES"
  shows "fst (collect_all_characters w) =
      fst (case load_locales pre BOT_LOCALES_DIR langs' (set (py_range 0x20 0x7F)) w of
             (Inl e, w1) \<Rightarrow> (Inl e, w1)
           | (Inr codepoints1, w1) \<Rightarrow> load_locales pre' CORE_LOCALES_DIR langs codepoints1 w1)"
  unfolding load_locales_bot_core [OF sets] collect_all_characters_fst
  by (rule refl)


text \<open>
  Claim C10. A set that the collector returns is the seed from 0x20 to 0x7E together with the
  code points of the string leaves of the documents of the locale files that exist. The
  result is the same when the directories are visited in the other order and the languages
  in any order, with repetitions; and a string adds the same code points as any string
  with the same characters.
\<close>

theorem collected_set_is_union:
  "(fst (collect_all_characters w) = Inr codepoints \<longrightarrow>
      codepoints = {0x20..0x7E} \<union>
        \<Union> {doc_codepoints doc | doc d lang.
             d \<in> {CORE_LOCALES_DIR, BOT_LOCALES_DIR} \<and> lang \<in> set LOCALE_LANGUAGES \<and>
             json_load w (os_path_join d (lang @ ''.json'')) = Inr doc}) \<and>
   (set langs = set LOCALE_LANGUAGES \<and> set langs' = set LOCALE_LANGUAGES \<longrightarrow>
      fst (collect_all_characters w) =
      fst (case load_locales pre BOT_LOCALES_DIR langs' (set (py_range 0x20 0x7F)) w of
             (Inl e, w1) \<Rightarrow> (Inl e, w1)
           | (Inr codepoints1, w1) \<Rightarrow> load_locales pre' CORE_LOCALES_DIR langs codepoints1 w1)) \<and>
   (set s = set s' \<longrightarrow> add_strings (JStr s) cps = add_strings (JStr s') cps)"
proof (intro conjI impI)
  assume "fst (collect_all_characters w) = Inr codepoints"
  then have "codepoints = {0x20..0x7E}
      \<union> \<Union> (doc_codepoints ` locale_docs w CORE_LOCALES_DIR LOCALE_LANGUAGES)
      \<union> \<Union> (doc_codepoints ` locale_docs w BOT_LOCALES_DIR LOCALE_LANGUAGES)"
    by (rule collect_all_characters_Inr)
  then show "codepoints = {0x20..0x7E} \<union>
        \<Union> {doc_codepoints doc | doc d lang.
             d \<in> {CORE_LOCALES_DIR, BOT_LOCALES_DIR} \<and> lang \<in> set LOCALE_LANGUAGES \<and>
             json_load w (os_path_join d (lang @ ''.json'')) = Inr doc}"
    by (simp only: existing_docs_eq Union_Un_distrib Un_assoc)
next
  assume "set langs = set LOCALE_LANGUAGES \<and> set langs' = set LOCALE_LANGUAGES"
  then have sets: "set langs = set LOCALE_LANGUAGES" "set langs' = set LOCALE_LANGUAGES"
    by (rule conjunct1, rule conjunct2)
  show "fst (collect_all_characters w) =
      fst (case load_locales pre BOT_LOCALES_DIR langs' (set (py_range 0x20 0x7F)) w of
             (Inl e, w1) \<Rightarrow> (Inl e, w1)
           | (Inr codepoints1, w1) \<Rightarrow> load_locales pre' CORE_LOCALES_DIR langs codepoints1 w1)"
    using sets by (rule collect_all_characters_order)
next
  assume "set s = set s'"
  then show "add_strings (JStr s) cps = add_strings (JStr s') cps"
    by (simp add: fold_insert_ord)
qed

theorem collected_set_is_union_witness:
  "fst (collect_all_characters example_world) =
     Inr (insert 0xB155 (insert 0xC548 (insert 0x597D (insert 0x60A8 (set (py_range 0x20 0x7F)))))) \<and>
   insert 0xB155 (insert 0xC548 (insert 0x597D (insert 0x60A8 (set (py_range 0x20 0x7F))))) =
     {0x20..0x7E} \<union>
        \<Union> {doc_codepoints doc | doc d lang.
             d \<in> {CORE_LOCALES_DIR, BOT_LOCALES_DIR} \<and> lang \<in> set LOCALE_LANGUAGES \<and>
             json_load example_world (os_path_join d (lang @ ''.json'')) = Inr doc} \<and>
   set [''fr'', ''de'', ''zh'', ''ko'', ''ja''] = set LOCALE_LANGUAGES \<and>
   set [''zh'', ''ja'', ''fr'', ''ko'', ''de'', ''zh''] = set LOCALE_LANGUAGES \<and>
   fst (collect_all_characters example_world) =
      fst (case load_locales ''  Bot  '' BOT_LOCALES_DIR [''zh'', ''ja'', ''fr'', ''ko'', ''de'', ''zh'']
                  (set (py_range 0x20 0x7F)) example_world of
             (Inl e, w1) \<Rightarrow> (Inl e, w1)
           | (Inr codepoints1, w1) \<Rightarrow>
               load_locales ''  Core '' CORE_LOCALES_DIR [''fr'', ''de'', ''zh'', ''ko'', ''ja''] codepoints1 w1) \<and>
   set [0x60A8, 0x597D, 0x60A8 :: nat] = set [0x597D, 0x60A8] \<and>
   add_strings (JStr [0x60A8, 0x597D, 0x60A8]) {} = add_strings (JStr [0x597D, 0x60A8]) {}"
proof -
  let ?C = "insert 0xB155 (insert 0xC548 (insert 0x597D (insert 0x60A8 (set (py_range 0x20 0x7F))))) :: int set"
  have res: "fst (collect_all_characters example_world) = Inr ?C"
    by (simp add: collect_all_characters_def example_world_def LOCALE_LANGUAGES_def
      os_path_exists_def os_path_join_def json_load_def print_def ord_def Let_def)
  have l1: "set [''fr'', ''de'', ''zh'', ''ko'', ''ja''] = set LOCALE_LANGUAGES"
    by (auto simp: LOCALE_LANGUAGES_def)
  have l2: "set [''zh'', ''ja'', ''fr'', ''ko'', ''de'', ''zh''] = set LOCALE_LANGUAGES"
    by (auto simp: LOCALE_LANGUAGES_def)
  have s: "set [0x60A8, 0x597D, 0x60A8 :: nat] = set [0x597D, 0x60A8]"
    by auto
  note inst = collected_set_is_union [where w = example_world and codepoints = ?C
        and langs = "[''fr'', ''de'', ''zh'', ''ko'', ''ja'']"
        and langs' = "[''zh'', ''ja'', ''fr'', ''ko'', ''de'', ''zh'']"
        and pre = "''  Bot  ''" and pre' = "''  Core ''"
        and s = "[0x60A8, 0x597D, 0x60A8]" and s' = "[0x597D, 0x60A8]" and cps = "{}"]
  have a: "?C = {0x20..0x7E} \<union>
        \<Union> {doc_codepoints doc | doc d lang.
             d \<in> {CORE_LOCALES_DIR, BOT_LOCALES_DIR} \<and> lang \<in> set LOCALE_LANGUAGES \<and>
             json_load example_world (os_path_join d (lang @ ''.json'')) = Inr doc}"
    using inst [THEN conjunct1] res by (rule mp)
  have b: "fst (collect_all_characters example_world) =
      fst (case load_locales ''  Bot  '' BOT_LOCALES_DIR [''zh'', ''ja'', ''fr'', ''ko'', ''de'', ''zh'']
                  (set (py_range 0x20 0x7F)) example_world of
             (Inl e, w1) \<Rightarrow> (Inl e, w1)
           | (Inr codepoints1, w1) \<Rightarrow>
               load_locales ''  Core '' CORE_LOCALES_DIR [''fr'', ''de'', ''zh'', ''ko'', ''ja''] codepoints1 w1)"
    using inst [THEN conjunct2, THEN conjunct1] conjI [OF l1 l2] by (rule mp)
  have c: "add_strings (JStr [0x60A8, 0x597D, 0x60A8]) {} = add_strings (JStr [0x597D, 0x60A8]) {}"
    using inst [THEN conjunct2, THEN conjunct2] s by (rule mp)
  show ?thesis
    by (intro conjI res a l1 l2 b s c)
qed

section \<open>The statistics\<close>


lemma count_in_card: "count_in codepoints lo hi = int (card (block lo hi codepoints))"
proof -
  have "Set.filter (\<lambda>c. lo \<le> c \<and> c \<le> hi) codepoints = block lo hi codepoints"
    by (auto simp: block_def)
  then show ?thesis by (simp add: count_in_def)
qed

lemma block_subset: "block lo hi S \<subseteq> S"
  by (auto simp: block_def)

lemma block_disjoint:
  "{lo..hi} \<inter> {lo'..hi'} = {} \<Longrightarrow> block lo hi S \<inter> block lo' hi' S = {}"
  by (auto simp: block_def)

lemma card_remainder:
  fixes S :: "'a set"
  assumes fin: "finite S"
    and sub: "A \<subseteq> S" "B \<subseteq> S" "C \<subseteq> S" "D \<subseteq> S" "E \<subseteq> S"
    and dis: "A \<inter> B = {}" "A \<inter> C = {}" "A \<inter> D = {}" "A \<inter> E = {}"
      "B \<inter> C = {}" "B \<inter> D = {}" "B \<inter> E = {}" "C \<inter> D = {}" "C \<inter> E = {}" "D \<inter> E = {}"
  shows "int (card (S - (A \<union> B \<union> C \<union> D \<union> E))) =
         int (card S) - int (card A) - int (card B) - int (card C) - int (card D) - int (card E)"
proof -
  have finA: "finite A" "finite B" "finite C" "finite D" "finite E"
    using fin sub by (auto intro: finite_subset)
  have "card (A \<union> B \<union> C \<union> D \<union> E) = card (A \<union> B \<union> C \<union> D) + card E"
    using finA dis by (intro card_Un_disjoint) auto
  also have "card (A \<union> B \<union> C \<union> D) = card (A \<union> B \<union> C) + card D"
    using finA dis by (intro card_Un_disjoint) auto
  also have "card (A \<union> B \<union> C) = card (A \<union> B) + card C"
    using finA dis by (intro card_Un_disjoint) auto
  also have "card (A \<union> B) = card A + card B"
    using finA dis by (intro card_Un_disjoint) auto
  finally have un: "card (A \<union> B \<union> C \<union> D \<union> E) = card A + card B + card C + card D + card E" .
  have subU: "A \<union> B \<union> C \<union> D \<union> E \<subseteq> S"
    using sub by auto
  then have "card (S - (A \<union> B \<union> C \<union> D \<union> E)) = card S - card (A \<union> B \<union> C \<union> D \<union> E)"
    using fin by (intro card_Diff_subset) (auto intro: finite_subset)
  moreover have "card (A \<union> B \<union> C \<union> D \<union> E) \<le> card S"
    using fin subU by (rule card_mono)
  ultimately show ?thesis using un by simp
qed

lemma ranges_disjoint:
  "{0x20..0x7E} \<inter> {0x4E00..0x9FFF} = ({} :: int set)"
  "{0x20..0x7E} \<inter> {0xAC00..0xD7AF} = ({} :: int set)"
  "{0x20..0x7E} \<inter> {0x30A0..0x30FF} = ({} :: int set)"
  "{0x20..0x7E} \<inter> {0x3040..0x309F} = ({} :: int set)"
  "{0x4E00..0x9FFF} \<inter> {0xAC00..0xD7AF} = ({} :: int set)"
  "{0x4E00..0x9FFF} \<inter> {0x30A0..0x30FF} = ({} :: int set)"
  "{0x4E00..0x9FFF} \<inter> {0x3040..0x309F} = ({} :: int set)"
  "{0xAC00..0xD7AF} \<inter> {0x30A0..0x30FF} = ({} :: int set)"
  "{0xAC00..0xD7AF} \<inter> {0x3040..0x309F} = ({} :: int set)"
  "{0x30A0..0x30FF} \<inter> {0x3040..0x309F} = ({} :: int set)"
  by simp_all

lemma print_stats_stdout:
  "stdout (print_stats codepoints w) = stdout w @
     [[Lit ''\<newline>Total codepoints: '', IntV (int (card codepoints))],
      [Lit ''  ASCII: '', IntV (int (card (block 0x20 0x7E codepoints)))],
      [Lit ''  CJK Unified: '', IntV (int (card (block 0x4E00 0x9FFF codepoints)))],
      [Lit ''  Hangul: '', IntV (int (card (block 0xAC00 0xD7AF codepoints)))],
      [Lit ''  Katakana: '', IntV (int (card (block 0x30A0 0x30FF codepoints)))],
      [Lit ''  Hiragana: '', IntV (int (card (block 0x3040 0x309F codepoints)))],
      [Lit ''  Other: '',
       IntV (int (card codepoints) - int (card (block 0x20 0x7E codepoints))
             - int (card (block 0x4E00 0x9FFF codepoints)) - int (card (block 0xAC00 0xD7AF codepoints))
             - int (card (block 0x30A0 0x30FF codepoints)) - int (card (block 0x3040 0x309F codepoints)))]]"
  by (simp add: print_stats_def Let_def count_in_card len_def)

lemma print_stats_world [simp]:
  "files (print_stats codepoints w) = files w" "network (print_stats codepoints w) = network w"
  by (simp_all add: print_stats_def Let_def)


lemma block_empty: "block lo hi {} = {}"
  by (simp add: block_def)

lemma block_insert:
  "block lo hi (insert x S) = (if lo \<le> x \<and> x \<le> hi then insert x (block lo hi S) else block lo hi S)"
  by (auto simp: block_def)

text \<open>
  Claim C3. For a finite set of code points, the reporter prints the size of the set, the number
  of its members in each of the five ranges (ASCII 0x20 to 0x7E, CJK 0x4E00 to 0x9FFF,
  Hangul 0xAC00 to 0xD7AF, Katakana 0x30A0 to 0x30FF, Hiragana 0x3040 to 0x309F) and, as
  Other, the number of its members in none of them, which is a cardinality and so never
  negative. The five counts and Other add up to the size of the set, and the five ranges
  are pairwise disjoint.
\<close>

theorem print_stats_partition:
  assumes "finite codepoints"
  shows
    "stdout (print_stats codepoints w) = stdout w @
       [[Lit ''\<newline>Total codepoints: '', IntV (int (card codepoints))],
        [Lit ''  ASCII: '', IntV (int (card (block 0x20 0x7E codepoints)))],
        [Lit ''  CJK Unified: '', IntV (int (card (block 0x4E00 0x9FFF codepoints)))],
        [Lit ''  Hangul: '', IntV (int (card (block 0xAC00 0xD7AF codepoints)))],
        [Lit ''  Katakana: '', IntV (int (card (block 0x30A0 0x30FF codepoints)))],
        [Lit ''  Hiragana: '', IntV (int (card (block 0x3040 0x309F codepoints)))],
        [Lit ''  Other: '',
         IntV (int (card (codepoints -
           (block 0x20 0x7E codepoints \<union> block 0x4E00 0x9FFF codepoints \<union>
            block 0xAC00 0xD7AF codepoints \<union> block 0x30A0 0x30FF codepoints \<union>
            block 0x3040 0x309F codepoints))))]] \<and>
     int (card (block 0x20 0x7E codepoints)) + int (card (block 0x4E00 0x9FFF codepoints)) +
     int (card (block 0xAC00 0xD7AF codepoints)) + int (card (block 0x30A0 0x30FF codepoints)) +
     int (card (block 0x3040 0x309F codepoints)) +
     int (card (codepoints -
           (block 0x20 0x7E codepoints \<union> block 0x4E00 0x9FFF codepoints \<union>
            block 0xAC00 0xD7AF codepoints \<union> block 0x30A0 0x30FF codepoints \<union>
            block 0x3040 0x309F codepoints))) = int (card codepoints) \<and>
     {0x20..0x7E} \<inter> {0x4E00..0x9FFF} = ({} :: int set) \<and>
     {0x20..0x7E} \<inter> {0xAC00..0xD7AF} = ({} :: int set) \<and>
     {0x20..0x7E} \<inter> {0x30A0..0x30FF} = ({} :: int set) \<and>
     {0x20..0x7E} \<inter> {0x3040..0x309F} = ({} :: int set) \<and>
     {0x4E00..0x9FFF} \<inter> {0xAC00..0xD7AF} = ({} :: int set) \<and>
     {0x4E00..0x9FFF} \<inter> {0x30A0..0x30FF} = ({} :: int set) \<and>
     {0x4E00..0x9FFF} \<inter> {0x3040..0x309F} = ({} :: int set) \<and>
     {0xAC00..0xD7AF} \<inter> {0x30A0..0x30FF} = ({} :: int set) \<and>
     {0xAC00..0xD7AF} \<inter> {0x3040..0x309F} = ({} :: int set) \<and>
     {0x30A0..0x30FF} \<inter> {0x3040..0x309F} = ({} :: int set)"
proof -
  let ?A = "block 0x20 0x7E codepoints" and ?B = "block 0x4E00 0x9FFF codepoints"
    and ?C = "block 0xAC00 0xD7AF codepoints" and ?D = "block 0x30A0 0x30FF codepoints"
    and ?E = "block 0x3040 0x309F codepoints"
  have other: "int (card (codepoints - (?A \<union> ?B \<union> ?C \<union> ?D \<union> ?E))) =
      int (card codepoints) - int (card ?A) - int (card ?B) - int (card ?C) - int (card ?D) - int (card ?E)"
    using assms
    by (rule card_remainder) (simp_all only: block_subset block_disjoint ranges_disjoint)
  have out: "stdout (print_stats codepoints w) = stdout w @
       [[Lit ''\<newline>Total codepoints: '', IntV (int (card codepoints))],
        [Lit ''  ASCII: '', IntV (int (card ?A))],
        [Lit ''  CJK Unified: '', IntV (int (card ?B))],
        [Lit ''  Hangul: '', IntV (int (card ?C))],
        [Lit ''  Katakana: '', IntV (int (card ?D))],
        [Lit ''  Hiragana: '', IntV (int (card ?E))],
        [Lit ''  Other: '', IntV (int (card (codepoints - (?A \<union> ?B \<union> ?C \<union> ?D \<union> ?E))))]]"
    unfolding other by (rule print_stats_stdout)
  have total: "int (card ?A) + int (card ?B) + int (card ?C) + int (card ?D) + int (card ?E) +
      int (card (codepoints - (?A \<union> ?B \<union> ?C \<union> ?D \<union> ?E))) = int (card codepoints)"
    unfolding other by simp
  show ?thesis
    by (intro conjI out total ranges_disjoint)
qed


theorem print_stats_partition_witness:
  "finite {0x41, 0x60A8, 0x597D, 0xC548, 0xB155, 0x30A2, 0x3042, 0x5 :: int} \<and>
   stdout (print_stats {0x41, 0x60A8, 0x597D, 0xC548, 0xB155, 0x30A2, 0x3042, 0x5} example_world) =
       [[Lit ''\<newline>Total codepoints: '', IntV 8],
        [Lit ''  ASCII: '', IntV 1],
        [Lit ''  CJK Unified: '', IntV 2],
        [Lit ''  Hangul: '', IntV 2],
        [Lit ''  Katakana: '', IntV 1],
        [Lit ''  Hiragana: '', IntV 1],
        [Lit ''  Other: '', IntV 1]]"
proof -
  have fin: "finite {0x41, 0x60A8, 0x597D, 0xC548, 0xB155, 0x30A2, 0x3042, 0x5 :: int}"
    by simp
  have out: "stdout example_world = []"
    by (simp add: example_world_def)
  show ?thesis
    using print_stats_partition [OF fin, of example_world, THEN conjunct1]
    by (simp add: block_insert block_empty out)
qed

section \<open>The required input font\<close>


lemma collect_all_characters_error:
  "fst (collect_all_characters w) = Inl e \<Longrightarrow> e = JSONDecodeError"
  by (simp add: collect_all_characters_fst split: if_splits)

lemma main_without_sc_input:
  assumes "files w SC_INPUT = None"
  shows "(fst (main lib w) = Inl (SystemExit 1) \<or> fst (main lib w) = Inl JSONDecodeError) \<and>
         files (snd (main lib w)) = files w \<and> network (snd (main lib w)) = network w"
proof -
  let ?w1 = "print [Lit ''Collecting characters from all locale files...''] w"
  obtain r w2 where coll: "collect_all_characters ?w1 = (r, w2)"
    by (cases "collect_all_characters ?w1")
  have w2: "files w2 = files w" "network w2 = network w"
    using collect_all_characters_world [of ?w1] by (simp_all add: coll)
  show ?thesis
  proof (cases r)
    case (Inl e)
    then have "e = JSONDecodeError"
      using collect_all_characters_error [of ?w1 e] by (simp add: coll)
    then show ?thesis
      using Inl w2 by (simp add: main_def Let_def coll)
  next
    case (Inr codepoints)
    have "\<not> os_path_exists (print_stats codepoints w2) SC_INPUT"
      using assms w2 by (simp add: os_path_exists_def)
    then show ?thesis
      using Inr w2 by (simp add: main_def Let_def coll)
  qed
qed

text \<open>
  Claim C4. When the Simplified Chinese input font is absent, the program ends with a status
  other than 0 (the status 1 of \<^verbatim>\<open>sys.exit(1)\<close>, or that of an exception raised while
  collecting) and the files are what they were before: no font was written.
\<close>

theorem main_missing_sc_input:
  "files w SC_INPUT = None \<Longrightarrow>
   exit_status (fst (main lib w)) \<noteq> 0 \<and> files (snd (main lib w)) = files w"
  using main_without_sc_input [of w lib] by (auto simp: exit_status_def)

theorem main_missing_sc_input_witness:
  "files example_world SC_INPUT = None \<and>
   fst (main example_lib example_world) = Inl (SystemExit 1) \<and>
   exit_status (fst (main example_lib example_world)) \<noteq> 0 \<and>
   files (snd (main example_lib example_world)) = files example_world"
proof -
  have none: "files example_world SC_INPUT = None"
    by (simp add: example_world_def SC_INPUT_def os_path_join_def)
  have exit: "fst (main example_lib example_world) = Inl (SystemExit 1)"
    by (simp add: main_def collect_all_characters_def example_world_def LOCALE_LANGUAGES_def
        os_path_exists_def os_path_join_def json_load_def print_def ord_def Let_def SC_INPUT_def
        print_stats_def)
  show ?thesis
    using none exit main_missing_sc_input [OF none, of example_lib] by (intro conjI) simp_all
qed

section \<open>Name records\<close>


lemma is_empty_lookup: "Mapping.is_empty m \<Longrightarrow> Mapping.lookup m k = None"
  by (auto simp: Mapping.is_empty_def keys_dom_lookup)

lemma subset_font_Inr:
  assumes "fst (subset_font lib input_path output_path codepoints fix_names w) = Inr (n, g)"
  shows "\<exists>fnt fnt1 fnt2 cmap.
     TTFont w input_path = Inr fnt \<and>
     subsetter_subset lib \<lparr>layout_features = [''*''], name_IDs = [''*''], notdef_outline = True\<rparr>
       codepoints fnt = Inr fnt1 \<and>
     fix_name_records fix_names fnt1 = Inr fnt2 \<and>
     compiled_size lib fnt2 = Inr n \<and>
     best_cmap fnt2 = Some cmap \<and> g = Mapping.size cmap \<and>
     snd (subset_font lib input_path output_path codepoints fix_names w) =
       w\<lparr>files := (files w)(output_path \<mapsto> \<lparr>getsize = n, content_of = Font fnt2\<rparr>)\<rparr>"
  using assms
  by (auto simp: subset_font_def font_save_def os_path_getsize_def Let_def
      split: sum.splits option.splits prod.splits)

lemma fix_name_records_Inr:
  assumes "fix_name_records (Some fix_names) fnt1 = Inr fnt2"
  shows "rel_option (list_all2 (\<lambda>r r'.
           case Mapping.lookup fix_names (nameID r) of Some s \<Rightarrow> r' = r\<lparr>string := s\<rparr> | None \<Rightarrow> r' = r))
           (name_table fnt1) (name_table fnt2) \<and>
         best_cmap fnt2 = best_cmap fnt1 \<and> other_tables fnt2 = other_tables fnt1"
proof (cases "truthy (Some fix_names)")
  case False
  then have "fnt2 = fnt1" and "\<And>k. Mapping.lookup fix_names k = None"
    using assms by (simp_all add: fix_name_records_def truthy_def is_empty_lookup)
  then show ?thesis
    by (simp add: option.rel_refl_strong list.rel_refl_strong)
next
  case True
  then obtain names where names: "name_table fnt1 = Some names"
    and fnt2: "fnt2 = fnt1\<lparr>name_table := Some (map (fix_record fix_names) names)\<rparr>"
    using assms by (auto simp: fix_name_records_def split: option.splits)
  have "list_all2 (\<lambda>r r'.
           case Mapping.lookup fix_names (nameID r) of Some s \<Rightarrow> r' = r\<lparr>string := s\<rparr> | None \<Rightarrow> r' = r)
           names (map (fix_record fix_names) names)"
    by (induction names) (auto simp: fix_record_def split: option.splits)
  then show ?thesis
    by (simp add: names fnt2)
qed


lemma TTFont_written:
  "TTFont (w\<lparr>files := (files w)(p \<mapsto> \<lparr>getsize = n, content_of = Font fnt\<rparr>)\<rparr>) p = Inr fnt"
  by (simp add: TTFont_def)

text \<open>
  Claim C5. When a mapping of overrides is given and the call succeeds, the font read back from
  the output path has the name records that the subsetting produced, in the same order,
  where a record whose name ID is a key of the mapping has the override as its string and
  every other record is unchanged; the character map and the other tables are those the
  subsetting produced. The overrides that \<^verbatim>\<open>main\<close> passes for the Korean font have the
  keys 1, 2, 4 and 6.
\<close>

theorem name_overrides_applied:
  "(fst (subset_font lib input_path output_path codepoints (Some fix_names) w) = Inr res \<longrightarrow>
      (\<exists>fnt fnt1 fnt2.
         TTFont w input_path = Inr fnt \<and>
         subsetter_subset lib \<lparr>layout_features = [''*''], name_IDs = [''*''], notdef_outline = True\<rparr>
           codepoints fnt = Inr fnt1 \<and>
         TTFont (snd (subset_font lib input_path output_path codepoints (Some fix_names) w))
           output_path = Inr fnt2 \<and>
         rel_option (list_all2 (\<lambda>r r'.
             case Mapping.lookup fix_names (nameID r) of
               Some s \<Rightarrow> r' = r\<lparr>string := s\<rparr>
             | None \<Rightarrow> r' = r))
           (name_table fnt1) (name_table fnt2) \<and>
         best_cmap fnt2 = best_cmap fnt1 \<and> other_tables fnt2 = other_tables fnt1)) \<and>
   Mapping.keys kr_fix_names = {1, 2, 4, 6}"
proof (intro conjI impI)
  assume ok: "fst (subset_font lib input_path output_path codepoints (Some fix_names) w) = Inr res"
  obtain n g where res: "res = (n, g)" by (cases res)
  from subset_font_Inr [OF ok [unfolded res]]
  obtain fnt fnt1 fnt2 where
    "TTFont w input_path = Inr fnt"
    "subsetter_subset lib \<lparr>layout_features = [''*''], name_IDs = [''*''], notdef_outline = True\<rparr>
       codepoints fnt = Inr fnt1"
    and fixed: "fix_name_records (Some fix_names) fnt1 = Inr fnt2"
    and w': "snd (subset_font lib input_path output_path codepoints (Some fix_names) w) =
       w\<lparr>files := (files w)(output_path \<mapsto> \<lparr>getsize = n, content_of = Font fnt2\<rparr>)\<rparr>"
    by blast
  moreover have "TTFont (snd (subset_font lib input_path output_path codepoints (Some fix_names) w))
           output_path = Inr fnt2"
    unfolding w' by (rule TTFont_written)
  ultimately show "\<exists>fnt fnt1 fnt2.
         TTFont w input_path = Inr fnt \<and>
         subsetter_subset lib \<lparr>layout_features = [''*''], name_IDs = [''*''], notdef_outline = True\<rparr>
           codepoints fnt = Inr fnt1 \<and>
         TTFont (snd (subset_font lib input_path output_path codepoints (Some fix_names) w))
           output_path = Inr fnt2 \<and>
         rel_option (list_all2 (\<lambda>r r'.
             case Mapping.lookup fix_names (nameID r) of
               Some s \<Rightarrow> r' = r\<lparr>string := s\<rparr>
             | None \<Rightarrow> r' = r))
           (name_table fnt1) (name_table fnt2) \<and>
         best_cmap fnt2 = best_cmap fnt1 \<and> other_tables fnt2 = other_tables fnt1"
    using fix_name_records_Inr [OF fixed] by blast
next
  show "Mapping.keys kr_fix_names = {1, 2, 4, 6}"
    by (auto simp: kr_fix_names_def)
qed

theorem name_overrides_applied_witness:
  "fst (subset_font example_lib (FONTS_DIR, ''NotoSansKR-Regular.ttf'') KR_OUTPUT {0x41}
          (Some kr_fix_names) example_font_world) = Inr (1000, 1) \<and>
   (\<exists>fnt2. TTFont (snd (subset_font example_lib (FONTS_DIR, ''NotoSansKR-Regular.ttf'') KR_OUTPUT {0x41}
          (Some kr_fix_names) example_font_world)) KR_OUTPUT = Inr fnt2 \<and>
      name_table fnt2 = Some
        [\<lparr>nameID = 1, platformID = 3, platEncID = 1, langID = 0x409, string = py_str ''Noto Sans KR''\<rparr>,
         \<lparr>nameID = 3, platformID = 3, platEncID = 1, langID = 0x409, string = py_str ''2.004;GOOG''\<rparr>])"
proof -
  have ok: "fst (subset_font example_lib (FONTS_DIR, ''NotoSansKR-Regular.ttf'') KR_OUTPUT {0x41}
          (Some kr_fix_names) example_font_world) = Inr (1000, 1)"
    by code_simp
  have inp: "TTFont example_font_world (FONTS_DIR, ''NotoSansKR-Regular.ttf'') = Inr example_font"
    by (simp add: TTFont_def example_font_world_def SC_INPUT_def os_path_join_def)
  have look: "Mapping.lookup kr_fix_names 1 = Some (py_str ''Noto Sans KR'')"
    "Mapping.lookup kr_fix_names 3 = None"
    by (simp_all add: kr_fix_names_def lookup_of_alist)
  from name_overrides_applied [where lib = example_lib and w = example_font_world
      and input_path = "(FONTS_DIR, ''NotoSansKR-Regular.ttf'')" and output_path = KR_OUTPUT
      and codepoints = "{0x41}" and fix_names = kr_fix_names and res = "(1000, 1)", THEN conjunct1]
    ok
  obtain fnt fnt1 fnt2 where
    "TTFont example_font_world (FONTS_DIR, ''NotoSansKR-Regular.ttf'') = Inr fnt"
    and sub: "subsetter_subset example_lib
       \<lparr>layout_features = [''*''], name_IDs = [''*''], notdef_outline = True\<rparr> {0x41} fnt = Inr fnt1"
    and out: "TTFont (snd (subset_font example_lib (FONTS_DIR, ''NotoSansKR-Regular.ttf'') KR_OUTPUT {0x41}
          (Some kr_fix_names) example_font_world)) KR_OUTPUT = Inr fnt2"
    and rel: "rel_option (list_all2 (\<lambda>r r'.
             case Mapping.lookup kr_fix_names (nameID r) of
               Some s \<Rightarrow> r' = r\<lparr>string := s\<rparr>
             | None \<Rightarrow> r' = r))
           (name_table fnt1) (name_table fnt2)"
    by blast
  then have "fnt = example_font" using inp by simp
  then have "name_table fnt1 = name_table example_font"
    using sub by (auto simp: example_lib_def)
  then have "name_table fnt2 = Some
        [\<lparr>nameID = 1, platformID = 3, platEncID = 1, langID = 0x409, string = py_str ''Noto Sans KR''\<rparr>,
         \<lparr>nameID = 3, platformID = 3, platEncID = 1, langID = 0x409, string = py_str ''2.004;GOOG''\<rparr>]"
    using rel by (auto simp: example_font_def option_rel_Some1 list_all2_Cons1 look)
  then show ?thesis using ok out by blast
qed

section \<open>What subset_font returns\<close>


text \<open>
  Claim C9. When the call succeeds, the first component of the pair it returns is the size of
  the file that the call wrote at the output path, and the second is the number of entries
  of the best character map of the font in that file, the subsetted font after the
  name records were fixed.
\<close>

theorem subset_font_result:
  "fst (subset_font lib input_path output_path codepoints fix_names w) = Inr (file_size, glyph_count) \<Longrightarrow>
   \<exists>fnt2 cmap.
     files (snd (subset_font lib input_path output_path codepoints fix_names w)) =
       (files w)(output_path \<mapsto> \<lparr>getsize = file_size, content_of = Font fnt2\<rparr>) \<and>
     os_path_getsize (snd (subset_font lib input_path output_path codepoints fix_names w)) output_path
       = Inr file_size \<and>
     TTFont (snd (subset_font lib input_path output_path codepoints fix_names w)) output_path
       = Inr fnt2 \<and>
     best_cmap fnt2 = Some cmap \<and> glyph_count = Mapping.size cmap"
proof -
  assume "fst (subset_font lib input_path output_path codepoints fix_names w) = Inr (file_size, glyph_count)"
  from subset_font_Inr [OF this]
  obtain fnt2 cmap where cmap: "best_cmap fnt2 = Some cmap" "glyph_count = Mapping.size cmap"
    and w': "snd (subset_font lib input_path output_path codepoints fix_names w) =
       w\<lparr>files := (files w)(output_path \<mapsto> \<lparr>getsize = file_size, content_of = Font fnt2\<rparr>)\<rparr>"
    by blast
  show ?thesis
    unfolding w' using cmap by (auto simp: os_path_getsize_def TTFont_def)
qed

theorem subset_font_result_witness:
  "fst (subset_font example_lib SC_INPUT SC_OUTPUT {0x41, 0xC548} None example_font_world) = Inr (1000, 2) \<and>
   (\<exists>fnt2 cmap.
     files (snd (subset_font example_lib SC_INPUT SC_OUTPUT {0x41, 0xC548} None example_font_world)) =
       (files example_font_world)(SC_OUTPUT \<mapsto> \<lparr>getsize = 1000, content_of = Font fnt2\<rparr>) \<and>
     os_path_getsize (snd (subset_font example_lib SC_INPUT SC_OUTPUT {0x41, 0xC548} None example_font_world))
       SC_OUTPUT = Inr 1000 \<and>
     TTFont (snd (subset_font example_lib SC_INPUT SC_OUTPUT {0x41, 0xC548} None example_font_world))
       SC_OUTPUT = Inr fnt2 \<and>
     best_cmap fnt2 = Some cmap \<and> (2 :: nat) = Mapping.size cmap)"
proof -
  have ok: "fst (subset_font example_lib SC_INPUT SC_OUTPUT {0x41, 0xC548} None example_font_world)
      = Inr (1000, 2)"
    by code_simp
  show ?thesis
    using ok subset_font_result [OF ok] by (rule conjI)
qed

section \<open>The Korean input font\<close>


lemma main_Inr:
  assumes "fst (main lib w) = Inr ()"
  shows "\<exists>codepoints w2 w5 sc w6 w7 kr_input w8 w10 kr w11.
     collect_all_characters (print [Lit ''Collecting characters from all locale files...''] w)
       = (Inr codepoints, w2) \<and>
     os_path_exists w2 SC_INPUT \<and>
     files w5 = files w2 \<and> network w5 = network w2 \<and>
     subset_font lib SC_INPUT SC_OUTPUT codepoints None w5 = (Inr sc, w6) \<and>
     files w7 = files w6 \<and> network w7 = network w6 \<and>
     main_kr_input w7 = (Inr kr_input, w8) \<and>
     files w10 = files w8 \<and> network w10 = network w8 \<and>
     subset_font lib kr_input KR_OUTPUT codepoints (Some kr_fix_names) w10 = (Inr kr, w11) \<and>
     files (snd (main lib w)) = files w11 \<and> network (snd (main lib w)) = network w11"
proof -
  let ?w1 = "print [Lit ''Collecting characters from all locale files...''] w"
  obtain r w2 where coll: "collect_all_characters ?w1 = (r, w2)"
    by (cases "collect_all_characters ?w1")
  from assms obtain codepoints where r: "r = Inr codepoints"
    by (cases r) (simp_all add: main_def Let_def coll)
  let ?w3 = "print_stats codepoints w2"
  from assms have sc_exists: "os_path_exists ?w3 SC_INPUT"
    by (cases "os_path_exists ?w3 SC_INPUT") (simp_all add: main_def Let_def coll r)
  let ?w4 = "print [Lit ''\<newline>--- Noto Sans SC ---''] ?w3"
  from sc_exists obtain sc_in where sc_in: "os_path_getsize ?w3 SC_INPUT = Inr sc_in"
    by (auto simp: os_path_exists_def os_path_getsize_def)
  let ?w5 = "print [Lit ''Input: '', KiBV (int sc_in), Lit '' KiB''] ?w4"
  obtain r6 w6 where sub1: "subset_font lib SC_INPUT SC_OUTPUT codepoints None ?w5 = (r6, w6)"
    by (cases "subset_font lib SC_INPUT SC_OUTPUT codepoints None ?w5")
  note step5 = coll r sc_exists sc_in sub1
  from assms obtain sc_size sc_glyphs where r6: "r6 = Inr (sc_size, sc_glyphs)"
    by (cases r6) (auto simp: main_def Let_def step5)
  let ?w7 = "print [Lit ''Output: '', KiBV (int sc_size), Lit '' KiB ('',
                      IntV (int sc_glyphs), Lit '' glyphs)''] w6"
  obtain r8 w8 where kr: "main_kr_input ?w7 = (r8, w8)"
    by (cases "main_kr_input ?w7")
  from assms obtain kr_input where r8: "r8 = Inr kr_input"
    by (cases r8) (simp_all add: main_def Let_def step5 r6 kr)
  let ?w9 = "print [Lit ''\<newline>--- Noto Sans KR ---''] w8"
  obtain r9 where g9: "os_path_getsize ?w9 kr_input = r9"
    by simp
  from assms obtain kr_in where r9: "r9 = Inr kr_in"
    by (cases r9) (simp_all add: main_def Let_def step5 r6 kr r8 g9 [simplified])
  let ?w10 = "print [Lit ''Input: '', KiBV (int kr_in), Lit '' KiB''] ?w9"
  obtain r11 w11 where sub2:
    "subset_font lib kr_input KR_OUTPUT codepoints (Some kr_fix_names) ?w10 = (r11, w11)"
    by (cases "subset_font lib kr_input KR_OUTPUT codepoints (Some kr_fix_names) ?w10")
  note step10 = step5 r6 kr r8 g9 [simplified] r9 sub2
  from assms obtain kr_size kr_glyphs where r11: "r11 = Inr (kr_size, kr_glyphs)"
    by (cases r11) (auto simp: main_def Let_def step10)
  have fin: "files (snd (main lib w)) = files w11" "network (snd (main lib w)) = network w11"
    by (simp_all add: main_def Let_def step10 r11)
  have "os_path_exists w2 SC_INPUT"
    using sc_exists by (simp add: os_path_exists_def)
  moreover have "files ?w5 = files w2" "network ?w5 = network w2"
    "files ?w7 = files w6" "network ?w7 = network w6"
    "files ?w10 = files w8" "network ?w10 = network w8"
    by simp_all
  ultimately show ?thesis
    using coll [unfolded r] sub1 [unfolded r6] kr [unfolded r8] sub2 [unfolded r11] fin
    by blast
qed


lemma kr_candidates_eq:
  "kr_candidates =
     [(FONTS_DIR, ''NotoSansKR-Variable.ttf''),
      (FONTS_DIR, ''NotoSansKR[wght].ttf''),
      (FONTS_DIR, ''NotoSansKR-Regular.ttf'')]"
  by (simp add: kr_candidates_def os_path_join_def)

lemma kr_candidates_not_output:
  "p \<in> set kr_candidates \<Longrightarrow> p \<noteq> SC_OUTPUT \<and> p \<noteq> KR_OUTPUT"
  by (auto simp: kr_candidates_eq SC_OUTPUT_def KR_OUTPUT_def os_path_join_def)

lemma main_kr_input_found:
  assumes "i < length kr_candidates" "os_path_exists w (kr_candidates ! i)"
    "\<forall>j < i. \<not> os_path_exists w (kr_candidates ! j)"
  shows "main_kr_input w = (Inr (kr_candidates ! i), w)"
proof -
  have "find (os_path_exists w) kr_candidates = Some (kr_candidates ! i)"
    using assms by (subst find_Some_iff) blast
  then show ?thesis by (simp add: main_kr_input_def)
qed

lemma main_kr_input_download:
  assumes "\<forall>p \<in> set kr_candidates. \<not> os_path_exists w p"
  shows "main_kr_input w =
     (case network w NOTO_KR_URL of
        None \<Rightarrow> (Inl URLError, print [Lit ''\<newline>Noto Sans KR source not found. Downloading...''] w)
      | Some f \<Rightarrow>
          (Inr (FONTS_DIR, ''NotoSansKR-Variable.ttf''),
           print [Lit ''Downloaded: '', KiBV (int (getsize f)), Lit '' KiB'']
             ((print [Lit ''\<newline>Noto Sans KR source not found. Downloading...''] w)
                \<lparr>files := (files w)((FONTS_DIR, ''NotoSansKR-Variable.ttf'') \<mapsto> f)\<rparr>)))"
proof -
  have "find (os_path_exists w) kr_candidates = None"
    using assms by (simp add: find_None_iff)
  then show ?thesis
    by (simp add: main_kr_input_def urlretrieve_def os_path_getsize_def os_path_join_def Let_def
        split: option.splits)
qed

lemma os_path_exists_cong: "files w' p = files w p \<Longrightarrow> os_path_exists w' p = os_path_exists w p"
  by (simp add: os_path_exists_def)

lemma TTFont_cong: "files w' p = files w p \<Longrightarrow> TTFont w' p = TTFont w p"
  by (simp add: TTFont_def)

lemma subset_font_Inr_world:
  assumes "subset_font lib input_path output_path codepoints fix_names w = (Inr r, w')"
  shows "\<exists>fnt fnt1 fnt2 n.
     TTFont w input_path = Inr fnt \<and>
     subsetter_subset lib \<lparr>layout_features = [''*''], name_IDs = [''*''], notdef_outline = True\<rparr>
       codepoints fnt = Inr fnt1 \<and>
     fix_name_records fix_names fnt1 = Inr fnt2 \<and>
     files w' = (files w)(output_path \<mapsto> \<lparr>getsize = n, content_of = Font fnt2\<rparr>) \<and>
     network w' = network w"
proof -
  obtain n g where r: "r = (n, g)" by (cases r)
  have "fst (subset_font lib input_path output_path codepoints fix_names w) = Inr (n, g)"
    and w': "w' = snd (subset_font lib input_path output_path codepoints fix_names w)"
    using assms r by simp_all
  from subset_font_Inr [OF this(1)] show ?thesis
    unfolding w' by force
qed

lemma collect_all_characters_print:
  "fst (collect_all_characters (print l w)) = fst (collect_all_characters w)"
  by (simp add: collect_all_characters_fst)


lemma main_uses_first_candidate:
  assumes ok: "fst (main lib w) = Inr ()"
    and i: "i < length kr_candidates" "os_path_exists w (kr_candidates ! i)"
      "\<forall>j < i. \<not> os_path_exists w (kr_candidates ! j)"
  shows "\<exists>codepoints fnt fnt1 fnt2.
     fst (collect_all_characters w) = Inr codepoints \<and>
     TTFont w (kr_candidates ! i) = Inr fnt \<and>
     subsetter_subset lib \<lparr>layout_features = [''*''], name_IDs = [''*''], notdef_outline = True\<rparr>
       codepoints fnt = Inr fnt1 \<and>
     fix_name_records (Some kr_fix_names) fnt1 = Inr fnt2 \<and>
     TTFont (snd (main lib w)) KR_OUTPUT = Inr fnt2 \<and>
     (\<forall>p \<in> set kr_candidates. files (snd (main lib w)) p = files w p)"
proof -
  from main_Inr [OF ok] obtain codepoints w2 w5 sc w6 w7 kr_input w8 w10 kr w11 where
    coll: "collect_all_characters (print [Lit ''Collecting characters from all locale files...''] w)
       = (Inr codepoints, w2)"
    and w5: "files w5 = files w2"
    and sub1: "subset_font lib SC_INPUT SC_OUTPUT codepoints None w5 = (Inr sc, w6)"
    and w7: "files w7 = files w6"
    and kr: "main_kr_input w7 = (Inr kr_input, w8)"
    and w10: "files w10 = files w8"
    and sub2: "subset_font lib kr_input KR_OUTPUT codepoints (Some kr_fix_names) w10 = (Inr kr, w11)"
    and fin: "files (snd (main lib w)) = files w11"
    by blast
  have cps: "fst (collect_all_characters w) = Inr codepoints"
    using coll collect_all_characters_print
      [of "[Lit ''Collecting characters from all locale files...'']" w] by simp
  have w2: "files w2 = files w"
    using collect_all_characters_world
      [of "print [Lit ''Collecting characters from all locale files...''] w"] coll by simp
  from subset_font_Inr_world [OF sub1] obtain x where
    w6: "files w6 = (files w5)(SC_OUTPUT \<mapsto> x)"
    by blast
  have cand: "files w7 p = files w p" if "p \<in> set kr_candidates" for p
    using kr_candidates_not_output [OF that] by (simp add: w7 w6 w5 w2)
  have ci: "kr_candidates ! i \<in> set kr_candidates"
    using i(1) by simp
  have "main_kr_input w7 = (Inr (kr_candidates ! i), w7)"
  proof (rule main_kr_input_found [OF i(1)])
    show "os_path_exists w7 (kr_candidates ! i)"
      using i(2) cand [OF ci] by (simp add: os_path_exists_def)
    show "\<forall>j < i. \<not> os_path_exists w7 (kr_candidates ! j)"
    proof (intro allI impI)
      fix j assume j: "j < i"
      then have "kr_candidates ! j \<in> set kr_candidates"
        using i(1) by simp
      then show "\<not> os_path_exists w7 (kr_candidates ! j)"
        using i(3) j cand by (simp add: os_path_exists_def)
    qed
  qed
  then have kr_input: "kr_input = kr_candidates ! i" and w8: "w8 = w7"
    using kr by simp_all
  from subset_font_Inr_world [OF sub2] obtain fnt fnt1 fnt2 n where
    inp: "TTFont w10 kr_input = Inr fnt"
    and sub: "subsetter_subset lib
       \<lparr>layout_features = [''*''], name_IDs = [''*''], notdef_outline = True\<rparr> codepoints fnt = Inr fnt1"
    and fixed: "fix_name_records (Some kr_fix_names) fnt1 = Inr fnt2"
    and w11: "files w11 = (files w10)(KR_OUTPUT \<mapsto> \<lparr>getsize = n, content_of = Font fnt2\<rparr>)"
    by blast
  have "TTFont w (kr_candidates ! i) = Inr fnt"
    using inp TTFont_cong [of w10 "kr_candidates ! i" w] cand [OF ci]
    by (simp add: kr_input w10 w8)
  moreover have "TTFont (snd (main lib w)) KR_OUTPUT = Inr fnt2"
    by (simp add: TTFont_def fin w11)
  moreover have "\<forall>p \<in> set kr_candidates. files (snd (main lib w)) p = files w p"
    using kr_candidates_not_output cand by (simp add: fin w11 w10 w8)
  ultimately show ?thesis
    using cps sub fixed by blast
qed

lemma main_downloads:
  assumes ok: "fst (main lib w) = Inr ()"
    and none: "\<forall>p \<in> set kr_candidates. \<not> os_path_exists w p"
  shows "\<exists>f codepoints fnt fnt1 fnt2.
     network w NOTO_KR_URL = Some f \<and>
     files (snd (main lib w)) (FONTS_DIR, ''NotoSansKR-Variable.ttf'') = Some f \<and>
     fst (collect_all_characters w) = Inr codepoints \<and>
     content_of f = Font fnt \<and>
     subsetter_subset lib \<lparr>layout_features = [''*''], name_IDs = [''*''], notdef_outline = True\<rparr>
       codepoints fnt = Inr fnt1 \<and>
     fix_name_records (Some kr_fix_names) fnt1 = Inr fnt2 \<and>
     TTFont (snd (main lib w)) KR_OUTPUT = Inr fnt2"
proof -
  from main_Inr [OF ok] obtain codepoints w2 w5 sc w6 w7 kr_input w8 w10 kr w11 where
    coll: "collect_all_characters (print [Lit ''Collecting characters from all locale files...''] w)
       = (Inr codepoints, w2)"
    and w5: "files w5 = files w2" "network w5 = network w2"
    and sub1: "subset_font lib SC_INPUT SC_OUTPUT codepoints None w5 = (Inr sc, w6)"
    and w7: "files w7 = files w6" "network w7 = network w6"
    and kr: "main_kr_input w7 = (Inr kr_input, w8)"
    and w10: "files w10 = files w8"
    and sub2: "subset_font lib kr_input KR_OUTPUT codepoints (Some kr_fix_names) w10 = (Inr kr, w11)"
    and fin: "files (snd (main lib w)) = files w11"
    by blast
  have cps: "fst (collect_all_characters w) = Inr codepoints"
    using coll collect_all_characters_print
      [of "[Lit ''Collecting characters from all locale files...'']" w] by simp
  have w2: "files w2 = files w" "network w2 = network w"
    using collect_all_characters_world
      [of "print [Lit ''Collecting characters from all locale files...''] w"] coll by simp_all
  from subset_font_Inr_world [OF sub1] obtain x where
    w6: "files w6 = (files w5)(SC_OUTPUT \<mapsto> x)" "network w6 = network w5"
    by blast
  have cand: "files w7 p = files w p" if "p \<in> set kr_candidates" for p
    using kr_candidates_not_output [OF that] by (simp add: w7 w6 w5 w2)
  have "\<forall>p \<in> set kr_candidates. \<not> os_path_exists w7 p"
    using none cand by (simp add: os_path_exists_def)
  note dl = main_kr_input_download [OF this]
  have net: "network w7 = network w"
    by (simp add: w7 w6 w5 w2)
  obtain f where f: "network w NOTO_KR_URL = Some f"
    using kr dl net by (cases "network w NOTO_KR_URL") simp_all
  have kr_input: "kr_input = (FONTS_DIR, ''NotoSansKR-Variable.ttf'')"
    and w8: "files w8 = (files w7)((FONTS_DIR, ''NotoSansKR-Variable.ttf'') \<mapsto> f)"
    using kr dl net f by auto
  from subset_font_Inr_world [OF sub2] obtain fnt fnt1 fnt2 n where
    inp: "TTFont w10 kr_input = Inr fnt"
    and sub: "subsetter_subset lib
       \<lparr>layout_features = [''*''], name_IDs = [''*''], notdef_outline = True\<rparr> codepoints fnt = Inr fnt1"
    and fixed: "fix_name_records (Some kr_fix_names) fnt1 = Inr fnt2"
    and w11: "files w11 = (files w10)(KR_OUTPUT \<mapsto> \<lparr>getsize = n, content_of = Font fnt2\<rparr>)"
    by blast
  have "content_of f = Font fnt"
    using inp by (simp add: TTFont_def kr_input w10 w8 split: content.splits)
  moreover have "TTFont (snd (main lib w)) KR_OUTPUT = Inr fnt2"
    by (simp add: TTFont_def fin w11)
  moreover have "files (snd (main lib w)) (FONTS_DIR, ''NotoSansKR-Variable.ttf'') = Some f"
    by (simp add: fin w11 w10 w8 KR_OUTPUT_def os_path_join_def)
  ultimately show ?thesis
    using f cps sub fixed by blast
qed


text \<open>
  Claim C7. The candidate list is the three file names, in the order given. When a candidate
  exists and none before it does, that candidate is the input and nothing is downloaded; a
  run of \<^verbatim>\<open>main\<close> that succeeds has then made the Korean output from the font at that
  path and left the candidate paths as they were. When no candidate exists and the URL
  can be fetched, the input is the fixed path, which now holds what the URL gave, and no
  error arises; a run of \<^verbatim>\<open>main\<close> that succeeds has then downloaded the file to
  the fixed path and made the Korean output from it.
\<close>

theorem kr_input_resolution:
  "kr_candidates =
     [(FONTS_DIR, ''NotoSansKR-Variable.ttf''),
      (FONTS_DIR, ''NotoSansKR[wght].ttf''),
      (FONTS_DIR, ''NotoSansKR-Regular.ttf'')] \<and>
   (i < length kr_candidates \<and> os_path_exists w (kr_candidates ! i) \<and>
    (\<forall>j < i. \<not> os_path_exists w (kr_candidates ! j)) \<longrightarrow>
      main_kr_input w = (Inr (kr_candidates ! i), w) \<and>
      (fst (main lib w) = Inr () \<longrightarrow>
         (\<exists>codepoints fnt fnt1 fnt2.
            fst (collect_all_characters w) = Inr codepoints \<and>
            TTFont w (kr_candidates ! i) = Inr fnt \<and>
            subsetter_subset lib
              \<lparr>layout_features = [''*''], name_IDs = [''*''], notdef_outline = True\<rparr>
              codepoints fnt = Inr fnt1 \<and>
            fix_name_records (Some kr_fix_names) fnt1 = Inr fnt2 \<and>
            TTFont (snd (main lib w)) KR_OUTPUT = Inr fnt2 \<and>
            (\<forall>p \<in> set kr_candidates. files (snd (main lib w)) p = files w p)))) \<and>
   ((\<forall>p \<in> set kr_candidates. \<not> os_path_exists w p) \<longrightarrow>
      (network w NOTO_KR_URL = Some f \<longrightarrow>
         fst (main_kr_input w) = Inr (FONTS_DIR, ''NotoSansKR-Variable.ttf'') \<and>
         files (snd (main_kr_input w)) = (files w)((FONTS_DIR, ''NotoSansKR-Variable.ttf'') \<mapsto> f)) \<and>
      (fst (main lib w) = Inr () \<longrightarrow>
         (\<exists>f codepoints fnt fnt1 fnt2.
            network w NOTO_KR_URL = Some f \<and>
            files (snd (main lib w)) (FONTS_DIR, ''NotoSansKR-Variable.ttf'') = Some f \<and>
            fst (collect_all_characters w) = Inr codepoints \<and>
            content_of f = Font fnt \<and>
            subsetter_subset lib
              \<lparr>layout_features = [''*''], name_IDs = [''*''], notdef_outline = True\<rparr>
              codepoints fnt = Inr fnt1 \<and>
            fix_name_records (Some kr_fix_names) fnt1 = Inr fnt2 \<and>
            TTFont (snd (main lib w)) KR_OUTPUT = Inr fnt2)))"
proof (intro conjI impI)
  show "kr_candidates =
     [(FONTS_DIR, ''NotoSansKR-Variable.ttf''),
      (FONTS_DIR, ''NotoSansKR[wght].ttf''),
      (FONTS_DIR, ''NotoSansKR-Regular.ttf'')]"
    by (rule kr_candidates_eq)
next
  assume "i < length kr_candidates \<and> os_path_exists w (kr_candidates ! i) \<and>
    (\<forall>j < i. \<not> os_path_exists w (kr_candidates ! j))"
  then show "main_kr_input w = (Inr (kr_candidates ! i), w)"
    by (intro main_kr_input_found) simp_all
next
  assume "i < length kr_candidates \<and> os_path_exists w (kr_candidates ! i) \<and>
    (\<forall>j < i. \<not> os_path_exists w (kr_candidates ! j))"
    and "fst (main lib w) = Inr ()"
  then show "\<exists>codepoints fnt fnt1 fnt2.
            fst (collect_all_characters w) = Inr codepoints \<and>
            TTFont w (kr_candidates ! i) = Inr fnt \<and>
            subsetter_subset lib
              \<lparr>layout_features = [''*''], name_IDs = [''*''], notdef_outline = True\<rparr>
              codepoints fnt = Inr fnt1 \<and>
            fix_name_records (Some kr_fix_names) fnt1 = Inr fnt2 \<and>
            TTFont (snd (main lib w)) KR_OUTPUT = Inr fnt2 \<and>
            (\<forall>p \<in> set kr_candidates. files (snd (main lib w)) p = files w p)"
    by (intro main_uses_first_candidate) simp_all
next
  assume none: "\<forall>p \<in> set kr_candidates. \<not> os_path_exists w p"
    and f: "network w NOTO_KR_URL = Some f"
  show "fst (main_kr_input w) = Inr (FONTS_DIR, ''NotoSansKR-Variable.ttf'')"
    by (simp add: main_kr_input_download [OF none] f)
  show "files (snd (main_kr_input w)) = (files w)((FONTS_DIR, ''NotoSansKR-Variable.ttf'') \<mapsto> f)"
    by (simp add: main_kr_input_download [OF none] f)
next
  assume "\<forall>p \<in> set kr_candidates. \<not> os_path_exists w p" and "fst (main lib w) = Inr ()"
  then show "\<exists>f codepoints fnt fnt1 fnt2.
            network w NOTO_KR_URL = Some f \<and>
            files (snd (main lib w)) (FONTS_DIR, ''NotoSansKR-Variable.ttf'') = Some f \<and>
            fst (collect_all_characters w) = Inr codepoints \<and>
            content_of f = Font fnt \<and>
            subsetter_subset lib
              \<lparr>layout_features = [''*''], name_IDs = [''*''], notdef_outline = True\<rparr>
              codepoints fnt = Inr fnt1 \<and>
            fix_name_records (Some kr_fix_names) fnt1 = Inr fnt2 \<and>
            TTFont (snd (main lib w)) KR_OUTPUT = Inr fnt2"
    by (intro main_downloads)
qed


theorem kr_input_resolution_witness:
  "(2 :: nat) < length kr_candidates \<and>
   os_path_exists example_font_world (kr_candidates ! 2) \<and>
   \<not> os_path_exists example_font_world (kr_candidates ! 0) \<and>
   \<not> os_path_exists example_font_world (kr_candidates ! 1) \<and>
   main_kr_input example_font_world =
     (Inr (FONTS_DIR, ''NotoSansKR-Regular.ttf''), example_font_world) \<and>
   fst (main example_lib example_font_world) = Inr () \<and>
   files (snd (main example_lib example_font_world)) (FONTS_DIR, ''NotoSansKR-Variable.ttf'') = None \<and>
   (\<exists>fnt2. TTFont (snd (main example_lib example_font_world)) KR_OUTPUT = Inr fnt2) \<and>
   \<not> os_path_exists example_download_world (kr_candidates ! 0) \<and>
   \<not> os_path_exists example_download_world (kr_candidates ! 1) \<and>
   \<not> os_path_exists example_download_world (kr_candidates ! 2) \<and>
   network example_download_world NOTO_KR_URL = Some \<lparr>getsize = 7000, content_of = Font example_font\<rparr> \<and>
   fst (main_kr_input example_download_world) = Inr (FONTS_DIR, ''NotoSansKR-Variable.ttf'') \<and>
   fst (main example_lib example_download_world) = Inr () \<and>
   files (snd (main example_lib example_download_world)) (FONTS_DIR, ''NotoSansKR-Variable.ttf'') =
     Some \<lparr>getsize = 7000, content_of = Font example_font\<rparr>"
proof -
  let ?f = "\<lparr>getsize = 7000, content_of = Font example_font\<rparr> :: unit disk_file"
  have len: "(2 :: nat) < length kr_candidates"
    by (simp add: kr_candidates_def)
  have ex: "os_path_exists example_font_world (kr_candidates ! 2)"
    "\<not> os_path_exists example_font_world (kr_candidates ! 0)"
    "\<not> os_path_exists example_font_world (kr_candidates ! 1)"
    by (simp_all add: kr_candidates_def os_path_exists_def example_font_world_def os_path_join_def
        SC_INPUT_def)
  have first: "\<forall>j < 2. \<not> os_path_exists example_font_world (kr_candidates ! j)"
    using ex by (auto simp: less_Suc_eq numeral_2_eq_2)
  have run: "fst (main example_lib example_font_world) = Inr ()"
    by code_simp
  have nx: "\<not> os_path_exists example_download_world (kr_candidates ! 0)"
    "\<not> os_path_exists example_download_world (kr_candidates ! 1)"
    "\<not> os_path_exists example_download_world (kr_candidates ! 2)"
    by (simp_all add: kr_candidates_def os_path_exists_def example_download_world_def os_path_join_def
        SC_INPUT_def)
  have none: "\<forall>p \<in> set kr_candidates. \<not> os_path_exists example_download_world p"
    by (simp add: kr_candidates_def os_path_exists_def example_download_world_def os_path_join_def
        SC_INPUT_def)
  have net: "network example_download_world NOTO_KR_URL = Some ?f"
    by (simp add: example_download_world_def)
  have run': "fst (main example_lib example_download_world) = Inr ()"
    by code_simp
  note found = kr_input_resolution [where w = example_font_world and i = 2 and lib = example_lib,
      THEN conjunct2, THEN conjunct1, THEN mp, OF conjI [OF len conjI [OF ex(1) first]]]
  note download = kr_input_resolution [where w = example_download_world and lib = example_lib
      and f = ?f, THEN conjunct2, THEN conjunct2, THEN mp, OF none]
  have a: "main_kr_input example_font_world =
     (Inr (FONTS_DIR, ''NotoSansKR-Regular.ttf''), example_font_world)"
    using found [THEN conjunct1] by (simp add: kr_candidates_def os_path_join_def)
  from found [THEN conjunct2, THEN mp, OF run] obtain fnt2 where
    b: "TTFont (snd (main example_lib example_font_world)) KR_OUTPUT = Inr fnt2"
    and same: "\<forall>p \<in> set kr_candidates.
       files (snd (main example_lib example_font_world)) p = files example_font_world p"
    by blast
  have "files (snd (main example_lib example_font_world)) (FONTS_DIR, ''NotoSansKR-Variable.ttf'')
      = files example_font_world (FONTS_DIR, ''NotoSansKR-Variable.ttf'')"
    using same by (simp add: kr_candidates_def os_path_join_def)
  then have c: "files (snd (main example_lib example_font_world))
      (FONTS_DIR, ''NotoSansKR-Variable.ttf'') = None"
    by (simp add: example_font_world_def SC_INPUT_def os_path_join_def)
  have d: "fst (main_kr_input example_download_world) = Inr (FONTS_DIR, ''NotoSansKR-Variable.ttf'')"
    using download [THEN conjunct1, THEN mp, OF net] by (rule conjunct1)
  have e: "files (snd (main example_lib example_download_world))
      (FONTS_DIR, ''NotoSansKR-Variable.ttf'') = Some ?f"
    using download [THEN conjunct2, THEN mp, OF run'] net by auto
  show ?thesis
    using len ex a run c b nx net d run' e by blast
qed

section \<open>The character map of the output\<close>


text \<open>
  The script hands the set of code points to the subsetter as it is, and the character
  map of the font it writes is the one the subsetter returned: fixing the name records
  does not touch it. Whether the keys of that map lie in the requested set is therefore a
  property of the font library alone; under that contract of the library the output has
  it too.
\<close>

lemma fix_name_records_cmap:
  "fix_name_records fix_names fnt1 = Inr fnt2 \<Longrightarrow> best_cmap fnt2 = best_cmap fnt1"
  by (auto simp: fix_name_records_def split: if_splits option.splits)

lemma subset_font_cmap:
  assumes "fst (subset_font lib input_path output_path codepoints fix_names w) = Inr res"
  shows "\<exists>fnt fnt1 fnt2.
     TTFont w input_path = Inr fnt \<and>
     subsetter_subset lib \<lparr>layout_features = [''*''], name_IDs = [''*''], notdef_outline = True\<rparr>
       codepoints fnt = Inr fnt1 \<and>
     TTFont (snd (subset_font lib input_path output_path codepoints fix_names w)) output_path
       = Inr fnt2 \<and>
     best_cmap fnt2 = best_cmap fnt1"
proof -
  obtain n g where res: "res = (n, g)" by (cases res)
  from subset_font_Inr [OF assms [unfolded res]]
  obtain fnt fnt1 fnt2 where
    "TTFont w input_path = Inr fnt"
    "subsetter_subset lib \<lparr>layout_features = [''*''], name_IDs = [''*''], notdef_outline = True\<rparr>
       codepoints fnt = Inr fnt1"
    and fixed: "fix_name_records fix_names fnt1 = Inr fnt2"
    and w': "snd (subset_font lib input_path output_path codepoints fix_names w) =
       w\<lparr>files := (files w)(output_path \<mapsto> \<lparr>getsize = n, content_of = Font fnt2\<rparr>)\<rparr>"
    by blast
  moreover have "TTFont (snd (subset_font lib input_path output_path codepoints fix_names w))
      output_path = Inr fnt2"
    unfolding w' by (rule TTFont_written)
  ultimately show ?thesis
    using fix_name_records_cmap [OF fixed] by blast
qed

lemma subset_font_cmap_within:
  assumes contract: "\<And>options cps fnt fnt1 cmap.
      subsetter_subset lib options cps fnt = Inr fnt1 \<Longrightarrow> best_cmap fnt1 = Some cmap \<Longrightarrow>
      Mapping.keys cmap \<subseteq> cps"
    and ok: "fst (subset_font lib input_path output_path codepoints fix_names w) = Inr res"
    and out: "TTFont (snd (subset_font lib input_path output_path codepoints fix_names w)) output_path
       = Inr fnt2"
    and cmap: "best_cmap fnt2 = Some cmap"
  shows "Mapping.keys cmap \<subseteq> codepoints"
proof -
  from subset_font_cmap [OF ok] obtain fnt fnt1 where
    "subsetter_subset lib \<lparr>layout_features = [''*''], name_IDs = [''*''], notdef_outline = True\<rparr>
       codepoints fnt = Inr fnt1"
    and "best_cmap fnt2 = best_cmap fnt1"
    using out by auto
  then show ?thesis
    using contract cmap by simp
qed

end
